theory Spec2Isabelle
  imports Complex_Main "HOL-Library.AList"
begin

section \<open>The WebSocket connection registry (app/websocket/manager.py)\<close>

text \<open>
  User identifiers are the strings the endpoint passes (\<open>str(current_user.id)\<close>), and
  a WebSocket object is identified by a number. A message is a Python value: the JSON
  values, and the two kinds of object the application puts into dicts that
  \<open>json.dumps\<close> rejects with a \<open>TypeError\<close>, a \<open>datetime\<close> and a bson \<open>ObjectId\<close>.
\<close>

type_synonym user_id = string
type_synonym websocket = nat

datatype pyval =
    PNone
  | PBool bool
  | PNum int
  | PStr string
  | PList "pyval list"
  | PDict "(string \<times> pyval) list"
  | PDatetime nat
  | PObjectId string

fun json_serializable :: "pyval \<Rightarrow> bool" where
  "json_serializable PNone = True"
| "json_serializable (PBool b) = True"
| "json_serializable (PNum n) = True"
| "json_serializable (PStr s) = True"
| "json_serializable (PList xs) = (\<forall>x \<in> set xs. json_serializable x)"
| "json_serializable (PDict kvs) = (\<forall>kv \<in> set kvs. json_serializable (snd kv))"
| "json_serializable (PDatetime t) = False"
| "json_serializable (PObjectId i) = False"

text \<open>
  What a socket does when it is touched during one call: its \<open>client_state\<close> is
  \<open>CONNECTED\<close> and \<open>send_text\<close> delivers, or the state is another one, or
  \<open>send_text\<close> raises; and whether \<open>close\<close> raises.
\<close>

datatype send_outcome = Send_ok | Not_connected | Send_raises

record socket_io =
  send_result :: "websocket \<Rightarrow> send_outcome"
  close_raises :: "websocket \<Rightarrow> bool"

text \<open>
  The body of the \<open>try\<close> of a send in the manager: the state check comes first, then
  \<open>json.dumps(message)\<close>, which raises on a value that is not serialisable, then
  \<open>send_text\<close>.
\<close>

definition try_send :: "socket_io \<Rightarrow> websocket \<Rightarrow> pyval \<Rightarrow> send_outcome" where
  "try_send io w message =
     (case send_result io w of
        Not_connected \<Rightarrow> Not_connected
      | Send_raises \<Rightarrow> Send_raises
      | Send_ok \<Rightarrow> if json_serializable message then Send_ok else Send_raises)"

text \<open>
  \<open>ConnectionManager\<close>: \<open>active_connections\<close> and \<open>user_roles\<close> are Python dicts
  (insertion ordered, so association lists), \<open>admin_connections\<close> is a Python set, kept
  as a duplicate-free list whose order stands for the set's iteration order. The two
  logs record the effects on the sockets: frames handed to \<open>send_text\<close> that went out,
  and successful \<open>close\<close> calls with their code.
\<close>

record ConnectionManager =
  active_connections :: "(user_id \<times> websocket) list"
  admin_connections :: "user_id list"
  user_roles :: "(user_id \<times> string) list"
  sent :: "(websocket \<times> pyval) list"
  closed :: "(websocket \<times> nat) list"

definition init_manager :: ConnectionManager where
  "init_manager =
     \<lparr>active_connections = [], admin_connections = [], user_roles = [],
      sent = [], closed = []\<rparr>"

definition is_user_connected :: "ConnectionManager \<Rightarrow> user_id \<Rightarrow> bool" where
  "is_user_connected m u = (map_of (active_connections m) u \<noteq> None)"

definition close_socket :: "socket_io \<Rightarrow> websocket \<Rightarrow> nat \<Rightarrow> ConnectionManager \<Rightarrow> ConnectionManager" where
  "close_socket io w code m =
     (if close_raises io w then m else m\<lparr>closed := closed m @ [(w, code)]\<rparr>)"

definition register_connection ::
  "socket_io \<Rightarrow> websocket \<Rightarrow> user_id \<Rightarrow> string \<Rightarrow> ConnectionManager \<Rightarrow> ConnectionManager" where
  "register_connection io w u user_role m =
     (let m1 = (case map_of (active_connections m) u of
                  Some old_websocket \<Rightarrow> close_socket io old_websocket 1000 m
                | None \<Rightarrow> m);
          m2 = m1\<lparr>active_connections := AList.update u w (active_connections m1),
                  user_roles := AList.update u user_role (user_roles m1)\<rparr>
      in if user_role \<in> set [''admin'', ''agent'']
         then m2\<lparr>admin_connections := List.insert u (admin_connections m2)\<rparr>
         else m2)"

definition disconnect :: "user_id \<Rightarrow> ConnectionManager \<Rightarrow> ConnectionManager" where
  "disconnect u m =
     m\<lparr>active_connections := AList.delete u (active_connections m),
       admin_connections := removeAll u (admin_connections m),
       user_roles := AList.delete u (user_roles m)\<rparr>"

definition send_personal_message ::
  "socket_io \<Rightarrow> pyval \<Rightarrow> user_id \<Rightarrow> ConnectionManager \<Rightarrow> ConnectionManager" where
  "send_personal_message io message u m =
     (case map_of (active_connections m) u of
        None \<Rightarrow> m
      | Some w \<Rightarrow>
          (case try_send io w message of
             Send_ok \<Rightarrow> m\<lparr>sent := sent m @ [(w, message)]\<rparr>
           | Not_connected \<Rightarrow> disconnect u m
           | Send_raises \<Rightarrow> disconnect u m))"

text \<open>
  The body of the two broadcast loops for one user: the frame goes out, or the user is
  appended to \<open>disconnected_users\<close>. The state is the manager and that list.
\<close>

definition broadcast_step ::
  "socket_io \<Rightarrow> pyval \<Rightarrow> user_id \<Rightarrow> websocket \<Rightarrow>
   ConnectionManager \<times> user_id list \<Rightarrow> ConnectionManager \<times> user_id list" where
  "broadcast_step io message u w st =
     (case try_send io w message of
        Send_ok \<Rightarrow> ((fst st)\<lparr>sent := sent (fst st) @ [(w, message)]\<rparr>, snd st)
      | Not_connected \<Rightarrow> (fst st, snd st @ [u])
      | Send_raises \<Rightarrow> (fst st, snd st @ [u]))"

fun admins_loop ::
  "socket_io \<Rightarrow> pyval \<Rightarrow> user_id list \<Rightarrow>
   ConnectionManager \<times> user_id list \<Rightarrow> ConnectionManager \<times> user_id list" where
  "admins_loop io message [] st = st"
| "admins_loop io message (u # us) st =
     admins_loop io message us
       (case map_of (active_connections (fst st)) u of
          None \<Rightarrow> st
        | Some w \<Rightarrow> broadcast_step io message u w st)"

fun all_loop ::
  "socket_io \<Rightarrow> pyval \<Rightarrow> (user_id \<times> websocket) list \<Rightarrow>
   ConnectionManager \<times> user_id list \<Rightarrow> ConnectionManager \<times> user_id list" where
  "all_loop io message [] st = st"
| "all_loop io message ((u, w) # rest) st =
     all_loop io message rest (broadcast_step io message u w st)"

fun disconnect_all :: "user_id list \<Rightarrow> ConnectionManager \<Rightarrow> ConnectionManager" where
  "disconnect_all [] m = m"
| "disconnect_all (u # us) m = disconnect_all us (disconnect u m)"

definition broadcast_to_admins :: "socket_io \<Rightarrow> pyval \<Rightarrow> ConnectionManager \<Rightarrow> ConnectionManager" where
  "broadcast_to_admins io message m =
     (let st = admins_loop io message (admin_connections m) (m, [])
      in disconnect_all (snd st) (fst st))"

definition broadcast_to_all :: "socket_io \<Rightarrow> pyval \<Rightarrow> ConnectionManager \<Rightarrow> ConnectionManager" where
  "broadcast_to_all io message m =
     (let st = all_loop io message (active_connections m) (m, [])
      in disconnect_all (snd st) (fst st))"

definition send_notification ::
  "socket_io \<Rightarrow> pyval \<Rightarrow> user_id \<Rightarrow> ConnectionManager \<Rightarrow> ConnectionManager" where
  "send_notification io notification_data target_user_id m =
     send_personal_message io
       (PDict [(''type'', PStr ''notification''), (''data'', notification_data)])
       target_user_id m"

fun send_to_users ::
  "socket_io \<Rightarrow> pyval \<Rightarrow> user_id list \<Rightarrow> ConnectionManager \<Rightarrow> ConnectionManager" where
  "send_to_users io message [] m = m"
| "send_to_users io message (u # us) m =
     send_to_users io message us (send_personal_message io message u m)"

text \<open>
  \<open>send_ticket_update\<close>: \<open>user_ids\<close> is \<open>None\<close> or a list; \<open>if user_ids\<close> is false for
  both \<open>None\<close> and the empty list, and then the update goes to the admins.
\<close>

definition send_ticket_update ::
  "socket_io \<Rightarrow> pyval \<Rightarrow> user_id list option \<Rightarrow> ConnectionManager \<Rightarrow> ConnectionManager" where
  "send_ticket_update io ticket_data user_ids m =
     (let message = PDict [(''type'', PStr ''ticket_update''), (''data'', ticket_data)]
      in case user_ids of
           None \<Rightarrow> broadcast_to_admins io message m
         | Some [] \<Rightarrow> broadcast_to_admins io message m
         | Some (u # us) \<Rightarrow> send_to_users io message (u # us) m)"

definition send_new_ticket_alert :: "socket_io \<Rightarrow> pyval \<Rightarrow> ConnectionManager \<Rightarrow> ConnectionManager" where
  "send_new_ticket_alert io ticket_data m =
     broadcast_to_admins io
       (PDict [(''type'', PStr ''new_ticket''), (''data'', ticket_data)]) m"

text \<open>
  \<open>get_connection_info\<close>: the three counts; \<open>customer_connections\<close> is a Python
  subtraction of two lengths, an integer that could be negative.
\<close>

record connection_info =
  total_connections :: int
  admin_connections_count :: int
  customer_connections :: int

definition get_connection_info :: "ConnectionManager \<Rightarrow> connection_info" where
  "get_connection_info m =
     \<lparr>total_connections = int (length (active_connections m)),
      admin_connections_count = int (length (admin_connections m)),
      customer_connections =
        int (length (active_connections m)) - int (length (admin_connections m))\<rparr>"

text \<open>A socket environment in which every send goes out and every close succeeds.\<close>

definition io_ok :: socket_io where
  "io_ok = \<lparr>send_result = (\<lambda>w. Send_ok), close_raises = (\<lambda>w. False)\<rparr>"

text \<open>An environment in which every send raises and every close raises.\<close>

definition io_broken :: socket_io where
  "io_broken = \<lparr>send_result = (\<lambda>w. Send_raises), close_raises = (\<lambda>w. True)\<rparr>"

text \<open>
  The consistency condition of the registry: the admin set lies within the keys of
  \<open>active_connections\<close>, the two dicts have the same keys, and the lists that stand for
  the set and for the dict keys have no duplicates.
\<close>

definition registry_inv :: "ConnectionManager \<Rightarrow> bool" where
  "registry_inv m =
     (set (admin_connections m) \<subseteq> set (map fst (active_connections m))
      \<and> set (map fst (user_roles m)) = set (map fst (active_connections m))
      \<and> distinct (admin_connections m)
      \<and> distinct (map fst (active_connections m)))"

text \<open>
  The calls that change the registry, each made with the behaviour of the sockets during
  that call; a reachable state is the result of a sequence of them from the empty
  registry of \<open>__init__\<close>.
\<close>

datatype manager_op =
    Register websocket user_id string
  | Disconnect user_id
  | Send_personal pyval user_id
  | Broadcast_admins pyval
  | Broadcast_all pyval
  | Send_notification pyval user_id
  | Send_ticket_update pyval "user_id list option"
  | Send_new_ticket_alert pyval

fun apply_op :: "socket_io \<Rightarrow> manager_op \<Rightarrow> ConnectionManager \<Rightarrow> ConnectionManager" where
  "apply_op io (Register w u r) m = register_connection io w u r m"
| "apply_op io (Disconnect u) m = disconnect u m"
| "apply_op io (Send_personal msg u) m = send_personal_message io msg u m"
| "apply_op io (Broadcast_admins msg) m = broadcast_to_admins io msg m"
| "apply_op io (Broadcast_all msg) m = broadcast_to_all io msg m"
| "apply_op io (Send_notification d u) m = send_notification io d u m"
| "apply_op io (Send_ticket_update d us) m = send_ticket_update io d us m"
| "apply_op io (Send_new_ticket_alert d) m = send_new_ticket_alert io d m"

fun run_ops :: "(socket_io \<times> manager_op) list \<Rightarrow> ConnectionManager \<Rightarrow> ConnectionManager" where
  "run_ops [] m = m"
| "run_ops ((io, op) # rest) m = run_ops rest (apply_op io op m)"

section \<open>The document store\<close>

text \<open>
  A bson \<open>ObjectId\<close> is kept as its canonical text, 24 lower-case hexadecimal digits:
  \<open>ObjectId.is_valid\<close> accepts a string of 24 hexadecimal digits in either case,
  \<open>ObjectId(s)\<close> of such a string is the identifier whose \<open>str\<close> is \<open>s\<close> in lower case,
  and two identifiers are equal when their texts are. Times are numbers
  (\<open>datetime.utcnow()\<close> is an argument \<open>now\<close> of each operation), and the identifier
  that the driver generates for an inserted document is an argument too.
\<close>

type_synonym oid = string

definition is_hex_digit :: "char \<Rightarrow> bool" where
  "is_hex_digit c = (c \<in> set ''0123456789abcdefABCDEF'')"

definition lower_hex :: "char \<Rightarrow> char" where
  "lower_hex c =
     (if c = CHR ''A'' then CHR ''a'' else if c = CHR ''B'' then CHR ''b''
      else if c = CHR ''C'' then CHR ''c'' else if c = CHR ''D'' then CHR ''d''
      else if c = CHR ''E'' then CHR ''e'' else if c = CHR ''F'' then CHR ''f'' else c)"

definition is_valid :: "string \<Rightarrow> bool" where
  "is_valid s = (length s = 24 \<and> list_all is_hex_digit s)"

definition ObjectId :: "string \<Rightarrow> oid" where
  "ObjectId s = map lower_hex s"

text \<open>\<open>str(x)\<close> of a field that holds an identifier or \<open>None\<close>.\<close>

definition py_str :: "oid option \<Rightarrow> string" where
  "py_str x = (case x of None \<Rightarrow> ''None'' | Some i \<Rightarrow> i)"

datatype error =
    HTTPException nat string
  | InvalidId
  | ValidationError

datatype UserRole = CUSTOMER | AGENT | ADMIN

fun role_value :: "UserRole \<Rightarrow> string" where
  "role_value CUSTOMER = ''customer''"
| "role_value AGENT = ''agent''"
| "role_value ADMIN = ''admin''"

record user_doc =
  u_id :: oid
  u_username :: string
  u_email :: string
  u_full_name :: string
  u_role :: UserRole
  u_status :: string
  u_phone :: "string option"
  u_department :: "string option"
  u_avatar_url :: "string option"
  u_password_hash :: string
  u_created_at :: nat
  u_updated_at :: nat
  u_last_login :: "nat option"

record ticket_doc =
  t_id :: oid
  t_title :: string
  t_description :: string
  t_category :: string
  t_priority :: string
  t_status :: string
  t_created_by :: "oid option"
  t_assigned_to :: "oid option"
  t_created_at :: nat
  t_updated_at :: nat
  t_resolved_at :: "nat option"
  t_resolution_note :: "string option"
  t_message_count :: int

record message_doc =
  m_id :: oid
  m_ticket_id :: oid
  m_sender_id :: oid
  m_content :: string
  m_message_type :: string
  m_status :: string
  m_created_at :: nat
  m_updated_at :: nat
  m_is_edited :: bool
  m_edited_at :: "nat option"

record notification_doc =
  n_id :: oid
  n_user_id :: oid
  n_notification_type :: string
  n_title :: string
  n_message :: string
  n_data :: "(string \<times> pyval) list"
  n_ticket_id :: "oid option"
  n_priority :: string
  n_is_read :: bool
  n_read_at :: "nat option"
  n_created_at :: nat

text \<open>
  The database: four collections, each the list of its documents in insertion order.
\<close>

record database =
  users :: "user_doc list"
  tickets :: "ticket_doc list"
  messages :: "message_doc list"
  notifications :: "notification_doc list"

text \<open>
  The collection operations the routes use, on a list of documents and a filter:
  \<open>find_one\<close> is \<open>List.find\<close>, \<open>count_documents\<close> counts the matches, \<open>update_one\<close>
  and \<open>delete_one\<close> act on the first match, \<open>update_many\<close> on every match;
  \<open>matched_count\<close> tells whether \<open>update_one\<close> or \<open>delete_one\<close> found a document.
\<close>

definition count_documents :: "('a \<Rightarrow> bool) \<Rightarrow> 'a list \<Rightarrow> int" where
  "count_documents P ds = int (length (filter P ds))"

fun update_one :: "('a \<Rightarrow> bool) \<Rightarrow> ('a \<Rightarrow> 'a) \<Rightarrow> 'a list \<Rightarrow> 'a list" where
  "update_one P f [] = []"
| "update_one P f (d # ds) = (if P d then f d # ds else d # update_one P f ds)"

fun delete_one :: "('a \<Rightarrow> bool) \<Rightarrow> 'a list \<Rightarrow> 'a list" where
  "delete_one P [] = []"
| "delete_one P (d # ds) = (if P d then ds else d # delete_one P ds)"

definition update_many :: "('a \<Rightarrow> bool) \<Rightarrow> ('a \<Rightarrow> 'a) \<Rightarrow> 'a list \<Rightarrow> 'a list" where
  "update_many P f ds = map (\<lambda>d. if P d then f d else d) ds"

definition matched_count :: "('a \<Rightarrow> bool) \<Rightarrow> 'a list \<Rightarrow> nat" where
  "matched_count P ds = (if list_ex P ds then 1 else 0)"


section \<open>The notification service (app/services/notification\_service.py)\<close>

datatype NotificationType =
    TICKET_CREATED | TICKET_ASSIGNED | TICKET_STATUS_CHANGED | NEW_MESSAGE
  | TICKET_RESOLVED | SYSTEM_ALERT | REMINDER

fun notification_type_value :: "NotificationType \<Rightarrow> string" where
  "notification_type_value TICKET_CREATED = ''ticket_created''"
| "notification_type_value TICKET_ASSIGNED = ''ticket_assigned''"
| "notification_type_value TICKET_STATUS_CHANGED = ''ticket_status_changed''"
| "notification_type_value NEW_MESSAGE = ''new_message''"
| "notification_type_value TICKET_RESOLVED = ''ticket_resolved''"
| "notification_type_value SYSTEM_ALERT = ''system_alert''"
| "notification_type_value REMINDER = ''reminder''"

text \<open>The values of the enum \<open>NotificationPriority\<close>, against which the response model
  validates the \<open>priority\<close> string.\<close>

definition notification_priorities :: "string list" where
  "notification_priorities = [''low'', ''medium'', ''high'', ''urgent'']"

text \<open>\<open>NotificationResponse\<close>; its \<open>metadata\<close> is always the default empty dict, as the
  stored document has no such key.\<close>

record NotificationResponse =
  nr_id :: oid
  nr_user_id :: oid
  nr_title :: string
  nr_message :: string
  nr_notification_type :: string
  nr_priority :: string
  nr_is_read :: bool
  nr_read_at :: "nat option"
  nr_created_at :: nat

definition notification_response_of :: "notification_doc \<Rightarrow> NotificationResponse" where
  "notification_response_of d =
     \<lparr>nr_id = n_id d, nr_user_id = n_user_id d, nr_title = n_title d,
      nr_message = n_message d, nr_notification_type = n_notification_type d,
      nr_priority = n_priority d, nr_is_read = n_is_read d, nr_read_at = n_read_at d,
      nr_created_at = n_created_at d\<rparr>"

text \<open>
  \<open>websocket_data\<close>: \<open>notification_response.dict()\<close> with \<open>_id\<close> and \<open>id\<close> overwritten by
  strings. \<open>dict()\<close> keeps Python objects, so \<open>user_id\<close> is still an \<open>ObjectId\<close> and
  \<open>created_at\<close> a \<open>datetime\<close>.
\<close>

definition websocket_data_of :: "NotificationResponse \<Rightarrow> pyval" where
  "websocket_data_of r =
     PDict [(''id'', PStr (nr_id r)),
            (''user_id'', PObjectId (nr_user_id r)),
            (''title'', PStr (nr_title r)),
            (''message'', PStr (nr_message r)),
            (''notification_type'', PStr (nr_notification_type r)),
            (''priority'', PStr (nr_priority r)),
            (''is_read'', PBool (nr_is_read r)),
            (''read_at'', (case nr_read_at r of None \<Rightarrow> PNone | Some t \<Rightarrow> PDatetime t)),
            (''created_at'', PDatetime (nr_created_at r)),
            (''metadata'', PDict []),
            (''_id'', PStr (nr_id r))]"

text \<open>
  The document \<open>notification_data\<close> that the service writes: \<open>data or {}\<close>, the ticket
  reference only for a non-empty \<open>ticket_id\<close>, unread, with no delivery field.
\<close>

definition notification_document ::
  "oid \<Rightarrow> nat \<Rightarrow> string \<Rightarrow> NotificationType \<Rightarrow> string \<Rightarrow> string \<Rightarrow>
   (string \<times> pyval) list option \<Rightarrow> string option \<Rightarrow> string \<Rightarrow> notification_doc" where
  "notification_document new_id now user_id notification_type title message data ticket_id
       priority =
     \<lparr>n_id = new_id,
      n_user_id = ObjectId user_id,
      n_notification_type = notification_type_value notification_type,
      n_title = title,
      n_message = message,
      n_data = (case data of None \<Rightarrow> [] | Some d \<Rightarrow> d),
      n_ticket_id = (case ticket_id of
                       None \<Rightarrow> None
                     | Some t \<Rightarrow> if t = [] then None else Some (ObjectId t)),
      n_priority = priority,
      n_is_read = False,
      n_read_at = None,
      n_created_at = now\<rparr>"

text \<open>
  \<open>create_and_broadcast_notification\<close>. The result is what the call returns or raises,
  with the database and the registry as the call leaves them: \<open>ObjectId(user_id)\<close> and
  \<open>ObjectId(ticket_id)\<close> raise \<open>InvalidId\<close> before anything is written; the response
  model rejects an unknown priority after the document is written; every exception is
  logged and raised again.
\<close>

definition create_and_broadcast_notification ::
  "socket_io \<Rightarrow> oid \<Rightarrow> nat \<Rightarrow> string \<Rightarrow> NotificationType \<Rightarrow> string \<Rightarrow> string \<Rightarrow>
   (string \<times> pyval) list option \<Rightarrow> string option \<Rightarrow> string \<Rightarrow>
   database \<Rightarrow> ConnectionManager \<Rightarrow>
   (error + NotificationResponse) \<times> database \<times> ConnectionManager" where
  "create_and_broadcast_notification io new_id now user_id notification_type title message
       data ticket_id priority db m =
     (if \<not> is_valid user_id then (Inl InvalidId, db, m)
      else if ticket_id \<noteq> None \<and> ticket_id \<noteq> Some [] \<and> \<not> is_valid (the ticket_id)
      then (Inl InvalidId, db, m)
      else
        let notification_data =
              notification_document new_id now user_id notification_type title message
                data ticket_id priority;
            db1 = db\<lparr>notifications := notifications db @ [notification_data]\<rparr>
        in case find (\<lambda>d. n_id d = new_id) (notifications db1) of
             None \<Rightarrow> (Inl ValidationError, db1, m)
           | Some created_notification \<Rightarrow>
               if n_priority created_notification \<notin> set notification_priorities
               then (Inl ValidationError, db1, m)
               else
                 let notification_response = notification_response_of created_notification
                 in if is_user_connected m user_id
                    then (Inr notification_response, db1,
                          send_notification io (websocket_data_of notification_response)
                            user_id m)
                    else (Inr notification_response, db1, m))"

text \<open>
  The two identifier arguments are acceptable: \<open>ticket_id\<close> is absent, empty or a valid
  identifier. The frame that \<open>send_notification\<close> builds around the response.
\<close>

definition ticket_id_ok :: "string option \<Rightarrow> bool" where
  "ticket_id_ok ticket_id = (ticket_id = None \<or> ticket_id = Some [] \<or> is_valid (the ticket_id))"

definition notification_frame :: "NotificationResponse \<Rightarrow> pyval" where
  "notification_frame r = PDict [(''type'', PStr ''notification''), (''data'', websocket_data_of r)]"

definition empty_database :: database where
  "empty_database = \<lparr>users = [], tickets = [], messages = [], notifications = []\<rparr>"

section \<open>Users: registration (app/routes/auth.py) and the ticket guard (app/utils/auth.py)\<close>


record UserResponse =
  ur_id :: oid
  ur_username :: string
  ur_email :: string
  ur_full_name :: string
  ur_role :: UserRole
  ur_status :: string
  ur_phone :: "string option"
  ur_department :: "string option"
  ur_avatar_url :: "string option"
  ur_created_at :: nat
  ur_updated_at :: nat
  ur_last_login :: "nat option"

definition user_response_of :: "user_doc \<Rightarrow> UserResponse" where
  "user_response_of u =
     \<lparr>ur_id = u_id u, ur_username = u_username u, ur_email = u_email u,
      ur_full_name = u_full_name u, ur_role = u_role u, ur_status = u_status u,
      ur_phone = u_phone u, ur_department = u_department u,
      ur_avatar_url = u_avatar_url u, ur_created_at = u_created_at u,
      ur_updated_at = u_updated_at u, ur_last_login = u_last_login u\<rparr>"



text \<open>
  \<open>check_ticket_permissions\<close>: \<open>ObjectId(ticket_id)\<close> raises on a malformed identifier
  (the routes test \<open>ObjectId.is_valid\<close> first); the last \<open>return False\<close> of the source is
  for a role outside the enum and has no counterpart here.
\<close>

definition check_ticket_permissions :: "database \<Rightarrow> string \<Rightarrow> UserResponse \<Rightarrow> error + bool" where
  "check_ticket_permissions db ticket_id current_user =
     (if \<not> is_valid ticket_id then Inl InvalidId
      else case find (\<lambda>t. t_id t = ObjectId ticket_id) (tickets db) of
             None \<Rightarrow> Inr False
           | Some ticket \<Rightarrow>
               if ur_role current_user \<in> set [ADMIN, AGENT] then Inr True
               else if ur_role current_user = CUSTOMER
               then Inr (py_str (t_created_by ticket) = ur_id current_user)
               else Inr False)"

text \<open>Two registered users and a request with the username of the first and the email
  of the second.\<close>

definition user_a :: user_doc where
  "user_a = \<lparr>u_id = ''65a0000000000000000000a1'', u_username = ''alice'',
      u_email = ''alice@example.com'', u_full_name = ''Alice A'', u_role = CUSTOMER,
      u_status = ''active'', u_phone = None, u_department = None, u_avatar_url = None,
      u_password_hash = ''h1'', u_created_at = 1, u_updated_at = 1, u_last_login = None\<rparr>"

definition user_b :: user_doc where
  "user_b = \<lparr>u_id = ''65a0000000000000000000b2'', u_username = ''bob'',
      u_email = ''bob@example.com'', u_full_name = ''Bob B'', u_role = AGENT,
      u_status = ''active'', u_phone = None, u_department = None, u_avatar_url = None,
      u_password_hash = ''h2'', u_created_at = 2, u_updated_at = 2, u_last_login = None\<rparr>"


section \<open>Notification routes (app/routes/notifications.py)\<close>

text \<open>
  The three routes by which a user changes notifications. Each filter names the caller:
  \<open>"user_id": ObjectId(current_user.id)\<close>. The result is the response or the
  \<open>HTTPException\<close>, with the database after the call.
\<close>

definition mark_read :: "nat \<Rightarrow> notification_doc \<Rightarrow> notification_doc" where
  "mark_read now d = d\<lparr>n_is_read := True, n_read_at := Some now\<rparr>"

definition mark_notification_read ::
  "nat \<Rightarrow> string \<Rightarrow> UserResponse \<Rightarrow> database \<Rightarrow> (error + string) \<times> database" where
  "mark_notification_read now notification_id current_user db =
     (if \<not> is_valid notification_id
      then (Inl (HTTPException 400 ''Invalid notification ID format''), db)
      else
        let flt = (\<lambda>d. n_id d = ObjectId notification_id
                        \<and> n_user_id d = ObjectId (ur_id current_user));
            db1 = db\<lparr>notifications := update_one flt (mark_read now) (notifications db)\<rparr>
        in if matched_count flt (notifications db) = 0
           then (Inl (HTTPException 404 ''Notification not found''), db1)
           else (Inr ''Notification marked as read'', db1))"

text \<open>
  \<open>BulkNotificationUpdate\<close>: validated identifiers and the flag. The route answers with
  the \<open>modified_count\<close> of \<open>update_many\<close>, the number of matched documents that the
  update changed.
\<close>

record BulkNotificationUpdate =
  notification_ids :: "oid list"
  bulk_is_read :: bool

definition bulk_set :: "nat \<Rightarrow> bool \<Rightarrow> notification_doc \<Rightarrow> notification_doc" where
  "bulk_set now flag d =
     (if flag then d\<lparr>n_is_read := flag, n_read_at := Some now\<rparr> else d\<lparr>n_is_read := flag\<rparr>)"

definition bulk_update_notifications ::
  "nat \<Rightarrow> BulkNotificationUpdate \<Rightarrow> UserResponse \<Rightarrow> database \<Rightarrow> nat \<times> database" where
  "bulk_update_notifications now bulk_update current_user db =
     (let ids = map ObjectId (notification_ids bulk_update);
          flt = (\<lambda>d. n_id d \<in> set ids \<and> n_user_id d = ObjectId (ur_id current_user));
          upd = bulk_set now (bulk_is_read bulk_update)
      in (length (filter (\<lambda>d. flt d \<and> upd d \<noteq> d) (notifications db)),
          db\<lparr>notifications := update_many flt upd (notifications db)\<rparr>))"

definition delete_notification ::
  "string \<Rightarrow> UserResponse \<Rightarrow> database \<Rightarrow> (error + string) \<times> database" where
  "delete_notification notification_id current_user db =
     (if \<not> is_valid notification_id
      then (Inl (HTTPException 400 ''Invalid notification ID format''), db)
      else
        let flt = (\<lambda>d. n_id d = ObjectId notification_id
                        \<and> n_user_id d = ObjectId (ur_id current_user));
            db1 = db\<lparr>notifications := delete_one flt (notifications db)\<rparr>
        in if matched_count flt (notifications db) = 0
           then (Inl (HTTPException 404 ''Notification not found''), db1)
           else (Inr ''Notification deleted'', db1))"

text \<open>The notifications of a database that belong to other users than \<open>uid\<close>, in order.\<close>

definition others_notifications :: "oid \<Rightarrow> database \<Rightarrow> notification_doc list" where
  "others_notifications uid db = filter (\<lambda>d. n_user_id d \<noteq> uid) (notifications db)"

text \<open>A notification of \<open>bob\<close> and the caller \<open>alice\<close>, as the response model of \<open>user_a\<close>.\<close>

definition notification_of_bob :: notification_doc where
  "notification_of_bob =
     \<lparr>n_id = ''65a0000000000000000000d4'', n_user_id = ''65a0000000000000000000b2'',
      n_notification_type = ''system_alert'', n_title = ''T'', n_message = ''M'',
      n_data = [], n_ticket_id = None, n_priority = ''medium'', n_is_read = False,
      n_read_at = None, n_created_at = 3\<rparr>"

section \<open>Ticket notifications of the service\<close>

text \<open>
  Python's \<open>str.title()\<close> on ASCII text: the first letter of every run of letters in
  upper case, the other letters in lower case.
\<close>

definition is_ascii_upper :: "char \<Rightarrow> bool" where
  "is_ascii_upper c = (65 \<le> (of_char c :: nat) \<and> (of_char c :: nat) \<le> 90)"

definition is_ascii_lower :: "char \<Rightarrow> bool" where
  "is_ascii_lower c = (97 \<le> (of_char c :: nat) \<and> (of_char c :: nat) \<le> 122)"

definition ascii_upper :: "char \<Rightarrow> char" where
  "ascii_upper c = (if is_ascii_lower c then char_of ((of_char c :: nat) - 32) else c)"

definition ascii_lower :: "char \<Rightarrow> char" where
  "ascii_lower c = (if is_ascii_upper c then char_of ((of_char c :: nat) + 32) else c)"

fun title_from :: "bool \<Rightarrow> string \<Rightarrow> string" where
  "title_from in_word [] = []"
| "title_from in_word (c # cs) =
     (if is_ascii_upper c \<or> is_ascii_lower c
      then (if in_word then ascii_lower c else ascii_upper c) # title_from True cs
      else c # title_from False cs)"

definition py_title :: "string \<Rightarrow> string" where
  "py_title s = title_from False s"

text \<open>The \<open>updated_by\<close> and \<open>resolved_by\<close> sub-dicts of a notification's \<open>data\<close>.\<close>

definition actor_dict :: "string \<Rightarrow> user_doc \<Rightarrow> pyval" where
  "actor_dict actor_id u =
     PDict [(''id'', PStr actor_id), (''name'', PStr (u_full_name u)),
            (''username'', PStr (u_username u))]"

text \<open>
  \<open>notify_ticket_status_change\<close> and \<open>notify_ticket_resolved\<close>. Whatever is raised inside
  (a malformed identifier, a failure of \<open>create_and_broadcast_notification\<close>) is logged
  and dropped, so the result is only the database and the registry. \<open>n1\<close> and \<open>n2\<close> are
  the identifiers of the documents inserted.
\<close>

definition notify_ticket_status_change ::
  "socket_io \<Rightarrow> oid \<Rightarrow> oid \<Rightarrow> nat \<Rightarrow> string \<Rightarrow> string \<Rightarrow> string \<Rightarrow> string \<Rightarrow>
   database \<Rightarrow> ConnectionManager \<Rightarrow> database \<times> ConnectionManager" where
  "notify_ticket_status_change io n1 n2 now ticket_id old_status new_status updated_by_id db m =
     (if \<not> is_valid ticket_id \<or> \<not> is_valid updated_by_id then (db, m)
      else case (find (\<lambda>t. t_id t = ObjectId ticket_id) (tickets db),
                 find (\<lambda>u. u_id u = ObjectId updated_by_id) (users db)) of
        (Some ticket, Some updated_by) \<Rightarrow>
          let title = ''Ticket Status Updated: '' @ py_title new_status;
              message = ''Ticket '' @ [CHR 0x27] @ t_title ticket @ [CHR 0x27]
                        @ '' status changed from '' @ old_status @ '' to '' @ new_status;
              data = [(''ticket_id'', PStr ticket_id),
                      (''ticket_title'', PStr (t_title ticket)),
                      (''old_status'', PStr old_status),
                      (''new_status'', PStr new_status),
                      (''updated_by'', actor_dict updated_by_id updated_by)];
              creator_id = py_str (t_created_by ticket);
              r1 = create_and_broadcast_notification io n1 now creator_id
                     TICKET_STATUS_CHANGED title message (Some data) (Some ticket_id)
                     ''medium'' db m
          in (case fst r1 of
                Inl e \<Rightarrow> snd r1
              | Inr resp \<Rightarrow>
                  (case t_assigned_to ticket of
                     None \<Rightarrow> snd r1
                   | Some assignee \<Rightarrow>
                       if assignee \<noteq> creator_id
                       then snd (create_and_broadcast_notification io n2 now assignee
                                  TICKET_STATUS_CHANGED title message (Some data)
                                  (Some ticket_id) ''medium'' (fst (snd r1)) (snd (snd r1)))
                       else snd r1))
      | _ \<Rightarrow> (db, m))"

definition notify_ticket_resolved ::
  "socket_io \<Rightarrow> oid \<Rightarrow> nat \<Rightarrow> string \<Rightarrow> string \<Rightarrow> string option \<Rightarrow>
   database \<Rightarrow> ConnectionManager \<Rightarrow> database \<times> ConnectionManager" where
  "notify_ticket_resolved io n1 now ticket_id resolved_by_id resolution_note db m =
     (if \<not> is_valid ticket_id \<or> \<not> is_valid resolved_by_id then (db, m)
      else case (find (\<lambda>t. t_id t = ObjectId ticket_id) (tickets db),
                 find (\<lambda>u. u_id u = ObjectId resolved_by_id) (users db)) of
        (Some ticket, Some resolved_by) \<Rightarrow>
          let message0 = ''Your ticket '' @ [CHR 0x27] @ t_title ticket @ [CHR 0x27]
                         @ '' has been resolved by '' @ u_full_name resolved_by;
              message = (case resolution_note of
                           None \<Rightarrow> message0
                         | Some note \<Rightarrow> if note = [] then message0
                                         else message0 @ ''. Resolution: '' @ note);
              data = [(''ticket_id'', PStr ticket_id),
                      (''ticket_title'', PStr (t_title ticket)),
                      (''ticket_status'', PStr (t_status ticket)),
                      (''ticket_priority'', PStr (t_priority ticket)),
                      (''resolution_note'',
                         (case resolution_note of None \<Rightarrow> PNone | Some note \<Rightarrow> PStr note)),
                      (''resolved_by'', actor_dict resolved_by_id resolved_by)]
          in snd (create_and_broadcast_notification io n1 now (py_str (t_created_by ticket))
                    TICKET_RESOLVED ''Ticket Resolved'' message (Some data) (Some ticket_id)
                    ''high'' db m)
      | _ \<Rightarrow> (db, m))"

section \<open>Ticket routes (app/routes/tickets.py)\<close>

record UserProfile =
  up_id :: oid
  up_username :: string
  up_full_name :: string
  up_role :: UserRole
  up_department :: "string option"
  up_avatar_url :: "string option"

definition user_profile_of :: "user_doc \<Rightarrow> UserProfile" where
  "user_profile_of u =
     \<lparr>up_id = u_id u, up_username = u_username u, up_full_name = u_full_name u,
      up_role = u_role u, up_department = u_department u, up_avatar_url = u_avatar_url u\<rparr>"

text \<open>The \<open>$lookup\<close> of a user reference followed by taking the first result, if any.\<close>

definition lookup_profile :: "database \<Rightarrow> oid option \<Rightarrow> UserProfile option" where
  "lookup_profile db r =
     (case r of
        None \<Rightarrow> None
      | Some i \<Rightarrow> map_option user_profile_of (find (\<lambda>u. u_id u = i) (users db)))"

record TicketSummary =
  ts_id :: oid
  ts_title :: string
  ts_category :: string
  ts_priority :: string
  ts_status :: string
  ts_created_by :: "UserProfile option"
  ts_assigned_to :: "UserProfile option"
  ts_created_at :: nat
  ts_updated_at :: nat
  ts_message_count :: int

definition ticket_summary_of :: "database \<Rightarrow> ticket_doc \<Rightarrow> TicketSummary" where
  "ticket_summary_of db t =
     \<lparr>ts_id = t_id t, ts_title = t_title t, ts_category = t_category t,
      ts_priority = t_priority t, ts_status = t_status t,
      ts_created_by = lookup_profile db (t_created_by t),
      ts_assigned_to = lookup_profile db (t_assigned_to t),
      ts_created_at = t_created_at t, ts_updated_at = t_updated_at t,
      ts_message_count = t_message_count t\<rparr>"

record TicketResponse =
  tr_id :: oid
  tr_title :: string
  tr_description :: string
  tr_category :: string
  tr_priority :: string
  tr_status :: string
  tr_created_by :: "UserProfile option"
  tr_assigned_to :: "UserProfile option"
  tr_created_at :: nat
  tr_updated_at :: nat
  tr_resolved_at :: "nat option"
  tr_resolution_note :: "string option"
  tr_message_count :: int

definition ticket_response_of :: "database \<Rightarrow> ticket_doc \<Rightarrow> TicketResponse" where
  "ticket_response_of db t =
     \<lparr>tr_id = t_id t, tr_title = t_title t, tr_description = t_description t,
      tr_category = t_category t, tr_priority = t_priority t, tr_status = t_status t,
      tr_created_by = lookup_profile db (t_created_by t),
      tr_assigned_to = lookup_profile db (t_assigned_to t),
      tr_created_at = t_created_at t, tr_updated_at = t_updated_at t,
      tr_resolved_at = t_resolved_at t, tr_resolution_note = t_resolution_note t,
      tr_message_count = t_message_count t\<rparr>"

record PaginatedTickets =
  pt_tickets :: "TicketSummary list"
  pt_total :: int
  pt_page :: int
  pt_per_page :: int
  pt_pages :: int
  pt_has_next :: bool
  pt_has_prev :: bool

text \<open>
  The filter \<open>query\<close> of \<open>get_tickets\<close>: the caller's own tickets for a customer, and each
  optional parameter when it is present and not empty. What \<open>$text\<close> matches is decided
  by the database's text index; it is the argument \<open>text_search\<close>.
\<close>

definition truthy :: "string option \<Rightarrow> bool" where
  "truthy x = (x \<noteq> None \<and> x \<noteq> Some [])"

definition tickets_query ::
  "(string \<Rightarrow> ticket_doc \<Rightarrow> bool) \<Rightarrow> string option \<Rightarrow> string option \<Rightarrow> string option \<Rightarrow>
   string option \<Rightarrow> UserResponse \<Rightarrow> ticket_doc \<Rightarrow> bool" where
  "tickets_query text_search status priority category search current_user t =
     ((ur_role current_user = CUSTOMER \<longrightarrow> t_created_by t = Some (ObjectId (ur_id current_user)))
      \<and> (truthy status \<longrightarrow> t_status t = the status)
      \<and> (truthy priority \<longrightarrow> t_priority t = the priority)
      \<and> (truthy category \<longrightarrow> t_category t = the category)
      \<and> (truthy search \<longrightarrow> text_search (the search) t))"

text \<open>
  \<open>math.ceil(total / per_page)\<close>. The quotient of the two integers is a float, the
  correctly rounded quotient; for a document count (far below \<open>2^46\<close>) and a divisor of at
  most 100 its ceiling is the ceiling of the exact quotient, which is what is computed
  here.
\<close>

definition math_ceil_div :: "int \<Rightarrow> int \<Rightarrow> int" where
  "math_ceil_div n per_page = \<lceil>real_of_int n / real_of_int per_page\<rceil>"

text \<open>
  \<open>get_tickets\<close>. The bounds \<open>ge=1\<close> and \<open>le=100\<close> of the two \<open>Query\<close> parameters are
  enforced before the body runs (status 422). The pipeline matches, sorts by
  \<open>created_at\<close> descending, skips, limits, and looks the two users up.
\<close>

definition get_tickets ::
  "(string \<Rightarrow> ticket_doc \<Rightarrow> bool) \<Rightarrow> int \<Rightarrow> int \<Rightarrow> string option \<Rightarrow> string option \<Rightarrow>
   string option \<Rightarrow> string option \<Rightarrow> UserResponse \<Rightarrow> database \<Rightarrow> error + PaginatedTickets" where
  "get_tickets text_search page per_page status priority category search current_user db =
     (if page < 1 \<or> per_page < 1 \<or> 100 < per_page
      then Inl (HTTPException 422 ''Unprocessable Entity'')
      else
        let query = tickets_query text_search status priority category search current_user;
            total_count = count_documents query (tickets db);
            skip_count = (page - 1) * per_page;
            pages = math_ceil_div total_count per_page;
            docs = take (nat per_page) (drop (nat skip_count)
                     (sort_key (\<lambda>t. - int (t_created_at t)) (filter query (tickets db))))
        in Inr \<lparr>pt_tickets = map (ticket_summary_of db) docs,
                pt_total = total_count, pt_page = page, pt_per_page = per_page,
                pt_pages = pages, pt_has_next = (page < pages), pt_has_prev = (page > 1)\<rparr>)"

definition get_ticket :: "string \<Rightarrow> UserResponse \<Rightarrow> database \<Rightarrow> error + TicketResponse" where
  "get_ticket ticket_id current_user db =
     (if \<not> is_valid ticket_id then Inl (HTTPException 400 ''Invalid ticket ID format'')
      else case check_ticket_permissions db ticket_id current_user of
        Inl e \<Rightarrow> Inl e
      | Inr has_permission \<Rightarrow>
          if \<not> has_permission
          then Inl (HTTPException 403 ''Not authorized to access this ticket'')
          else case find (\<lambda>t. t_id t = ObjectId ticket_id) (tickets db) of
                 None \<Rightarrow> Inl (HTTPException 404 ''Ticket not found'')
               | Some ticket \<Rightarrow> Inr (ticket_response_of db ticket))"

text \<open>\<open>TicketUpdate\<close>, and the \<open>$set\<close> of its fields that are not \<open>None\<close>.\<close>

record TicketUpdate =
  tu_title :: "string option"
  tu_description :: "string option"
  tu_category :: "string option"
  tu_priority :: "string option"
  tu_status :: "string option"
  tu_assigned_to :: "oid option"

definition update_is_empty :: "TicketUpdate \<Rightarrow> bool" where
  "update_is_empty tu =
     (tu_title tu = None \<and> tu_description tu = None \<and> tu_category tu = None
      \<and> tu_priority tu = None \<and> tu_status tu = None \<and> tu_assigned_to tu = None)"

definition apply_update :: "nat \<Rightarrow> TicketUpdate \<Rightarrow> ticket_doc \<Rightarrow> ticket_doc" where
  "apply_update now tu t =
     t\<lparr>t_title := (case tu_title tu of None \<Rightarrow> t_title t | Some v \<Rightarrow> v),
       t_description := (case tu_description tu of None \<Rightarrow> t_description t | Some v \<Rightarrow> v),
       t_category := (case tu_category tu of None \<Rightarrow> t_category t | Some v \<Rightarrow> v),
       t_priority := (case tu_priority tu of None \<Rightarrow> t_priority t | Some v \<Rightarrow> v),
       t_status := (case tu_status tu of None \<Rightarrow> t_status t | Some v \<Rightarrow> v),
       t_assigned_to := (case tu_assigned_to tu of None \<Rightarrow> t_assigned_to t | Some v \<Rightarrow> Some v),
       t_updated_at := now,
       t_resolved_at := (if tu_status tu = Some ''resolved'' then Some now else t_resolved_at t)\<rparr>"

definition update_ticket ::
  "socket_io \<Rightarrow> oid \<Rightarrow> oid \<Rightarrow> nat \<Rightarrow> string \<Rightarrow> TicketUpdate \<Rightarrow> UserResponse \<Rightarrow>
   database \<Rightarrow> ConnectionManager \<Rightarrow> (error + TicketResponse) \<times> database \<times> ConnectionManager" where
  "update_ticket io n1 n2 now ticket_id ticket_update current_user db m =
     (if \<not> is_valid ticket_id then (Inl (HTTPException 400 ''Invalid ticket ID format''), db, m)
      else case check_ticket_permissions db ticket_id current_user of
        Inl e \<Rightarrow> (Inl e, db, m)
      | Inr has_permission \<Rightarrow>
          if \<not> has_permission
          then (Inl (HTTPException 403 ''Not authorized to update this ticket''), db, m)
          else case find (\<lambda>t. t_id t = ObjectId ticket_id) (tickets db) of
            None \<Rightarrow> (Inl (HTTPException 404 ''Ticket not found''), db, m)
          | Some original_ticket \<Rightarrow>
              if update_is_empty ticket_update then (get_ticket ticket_id current_user db, db, m)
              else
                let flt = (\<lambda>t. t_id t = ObjectId ticket_id);
                    db1 = db\<lparr>tickets := update_one flt (apply_update now ticket_update)
                                           (tickets db)\<rparr>;
                    old_status = t_status original_ticket
                in if matched_count flt (tickets db) = 0
                   then (Inl (HTTPException 404 ''Ticket not found''), db1, m)
                   else
                     let st = (case tu_status ticket_update of
                                 None \<Rightarrow> (db1, m)
                               | Some new_status \<Rightarrow>
                                   if new_status = [] \<or> old_status = new_status then (db1, m)
                                   else if new_status = ''resolved''
                                   then notify_ticket_resolved io n1 now ticket_id
                                          (ur_id current_user) None db1 m
                                   else notify_ticket_status_change io n1 n2 now ticket_id
                                          old_status new_status (ur_id current_user) db1 m)
                     in (get_ticket ticket_id current_user (fst st), fst st, snd st))"

definition delete_ticket ::
  "string \<Rightarrow> UserResponse \<Rightarrow> database \<Rightarrow> (error + unit) \<times> database" where
  "delete_ticket ticket_id current_user db =
     (if ur_role current_user \<notin> set [AGENT, ADMIN]
      then (Inl (HTTPException 403 ''Insufficient permissions''), db)
      else if \<not> is_valid ticket_id
      then (Inl (HTTPException 400 ''Invalid ticket ID format''), db)
      else
        let flt = (\<lambda>t. t_id t = ObjectId ticket_id);
            db1 = db\<lparr>tickets := delete_one flt (tickets db)\<rparr>
        in if matched_count flt (tickets db) = 0
           then (Inl (HTTPException 404 ''Ticket not found''), db1)
           else (Inr (), db1))"

text \<open>The documents that the pipeline of \<open>get_tickets\<close> has after \<open>$match\<close> and \<open>$sort\<close>.\<close>

definition matching_tickets ::
  "(string \<Rightarrow> ticket_doc \<Rightarrow> bool) \<Rightarrow> string option \<Rightarrow> string option \<Rightarrow> string option \<Rightarrow>
   string option \<Rightarrow> UserResponse \<Rightarrow> database \<Rightarrow> ticket_doc list" where
  "matching_tickets text_search status priority category search current_user db =
     sort_key (\<lambda>t. - int (t_created_at t))
       (filter (tickets_query text_search status priority category search current_user)
          (tickets db))"

text \<open>Three tickets, two of \<open>alice\<close> and one of another customer, and a database with
  them and the two users.\<close>

definition ticket_1 :: ticket_doc where
  "ticket_1 = \<lparr>t_id = ''65b000000000000000000001'', t_title = ''Printer broken'',
      t_description = ''It does not print'', t_category = ''technical'', t_priority = ''medium'',
      t_status = ''open'', t_created_by = Some ''65a0000000000000000000a1'',
      t_assigned_to = None, t_created_at = 10, t_updated_at = 10, t_resolved_at = None,
      t_resolution_note = None, t_message_count = 0\<rparr>"

definition ticket_2 :: ticket_doc where
  "ticket_2 = \<lparr>t_id = ''65b000000000000000000002'', t_title = ''Invoice wrong'',
      t_description = ''The amount is wrong'', t_category = ''billing'', t_priority = ''high'',
      t_status = ''open'', t_created_by = Some ''65a0000000000000000000c3'',
      t_assigned_to = None, t_created_at = 20, t_updated_at = 20, t_resolved_at = None,
      t_resolution_note = None, t_message_count = 0\<rparr>"

definition ticket_3 :: ticket_doc where
  "ticket_3 = \<lparr>t_id = ''65b000000000000000000003'', t_title = ''Login fails'',
      t_description = ''Password rejected'', t_category = ''account'', t_priority = ''low'',
      t_status = ''open'', t_created_by = Some ''65a0000000000000000000a1'',
      t_assigned_to = None, t_created_at = 30, t_updated_at = 30, t_resolved_at = None,
      t_resolution_note = None, t_message_count = 0\<rparr>"

definition example_db :: database where
  "example_db = \<lparr>users = [user_a, user_b], tickets = [ticket_1, ticket_2, ticket_3],
      messages = [], notifications = []\<rparr>"

text \<open>
  An identifier in canonical form, as \<open>str\<close> of a validated \<open>PyObjectId\<close> is; a ticket
  that was not created by a given user; the notification step of \<open>update_ticket\<close> taken
  by itself; and an update that only sets the status.
\<close>

definition canonical_oid :: "string \<Rightarrow> bool" where
  "canonical_oid i = (is_valid i \<and> ObjectId i = i)"

definition not_owned_by :: "oid \<Rightarrow> ticket_doc \<Rightarrow> bool" where
  "not_owned_by uid t = (t_created_by t \<noteq> Some uid)"

definition status_effect ::
  "socket_io \<Rightarrow> oid \<Rightarrow> oid \<Rightarrow> nat \<Rightarrow> string \<Rightarrow> TicketUpdate \<Rightarrow> UserResponse \<Rightarrow> string \<Rightarrow>
   database \<Rightarrow> ConnectionManager \<Rightarrow> database \<times> ConnectionManager" where
  "status_effect io n1 n2 now tid tu u old_status db1 m =
     (case tu_status tu of
        None \<Rightarrow> (db1, m)
      | Some new_status \<Rightarrow>
          if new_status = [] \<or> old_status = new_status then (db1, m)
          else if new_status = ''resolved''
          then notify_ticket_resolved io n1 now tid (ur_id u) None db1 m
          else notify_ticket_status_change io n1 n2 now tid old_status new_status (ur_id u) db1 m)"

definition close_update :: TicketUpdate where
  "close_update = \<lparr>tu_title = None, tu_description = None, tu_category = None,
      tu_priority = None, tu_status = Some ''closed'', tu_assigned_to = None\<rparr>"

section \<open>Chat routes (app/routes/chat.py)\<close>

record MessageCreate =
  mc_content :: string
  mc_message_type :: string
  mc_ticket_id :: oid

record MessageResponse =
  mr_id :: oid
  mr_ticket_id :: oid
  mr_sender :: UserProfile
  mr_content :: string
  mr_message_type :: string
  mr_status :: string
  mr_created_at :: nat
  mr_updated_at :: nat
  mr_is_edited :: bool
  mr_edited_at :: "nat option"

definition sender_profile_of :: "UserResponse \<Rightarrow> UserProfile" where
  "sender_profile_of u =
     \<lparr>up_id = ur_id u, up_username = ur_username u, up_full_name = ur_full_name u,
      up_role = ur_role u, up_department = ur_department u, up_avatar_url = ur_avatar_url u\<rparr>"

definition message_response_of :: "UserProfile \<Rightarrow> message_doc \<Rightarrow> MessageResponse" where
  "message_response_of sender d =
     \<lparr>mr_id = m_id d, mr_ticket_id = m_ticket_id d, mr_sender = sender,
      mr_content = m_content d, mr_message_type = m_message_type d, mr_status = m_status d,
      mr_created_at = m_created_at d, mr_updated_at = m_updated_at d,
      mr_is_edited = m_is_edited d, mr_edited_at = m_edited_at d\<rparr>"

text \<open>
  \<open>send_message\<close> writes twice, with an \<open>await\<close> between and no transaction: first
  \<open>db.messages.insert_one\<close>, then \<open>db.tickets.update_one\<close> with \<open>$inc\<close> of
  \<open>message_count\<close>. The two writes are given by themselves, so that the database between
  them, which other requests are served from, can be named.
\<close>

definition message_document :: "oid \<Rightarrow> nat \<Rightarrow> MessageCreate \<Rightarrow> UserResponse \<Rightarrow> message_doc" where
  "message_document new_id now message_data current_user =
     \<lparr>m_id = new_id, m_ticket_id = mc_ticket_id message_data,
      m_sender_id = ObjectId (ur_id current_user), m_content = mc_content message_data,
      m_message_type = mc_message_type message_data, m_status = ''sent'',
      m_created_at = now, m_updated_at = now, m_is_edited = False, m_edited_at = None\<rparr>"

definition send_message_insert ::
  "oid \<Rightarrow> nat \<Rightarrow> MessageCreate \<Rightarrow> UserResponse \<Rightarrow> database \<Rightarrow> database" where
  "send_message_insert new_id now message_data current_user db =
     db\<lparr>messages := messages db @ [message_document new_id now message_data current_user]\<rparr>"

definition send_message_count :: "nat \<Rightarrow> MessageCreate \<Rightarrow> database \<Rightarrow> database" where
  "send_message_count now message_data db =
     db\<lparr>tickets := update_one (\<lambda>t. t_id t = ObjectId (mc_ticket_id message_data))
                       (\<lambda>t. t\<lparr>t_message_count := t_message_count t + 1, t_updated_at := now\<rparr>)
                       (tickets db)\<rparr>"

definition send_message ::
  "oid \<Rightarrow> nat \<Rightarrow> MessageCreate \<Rightarrow> UserResponse \<Rightarrow> database \<Rightarrow>
   (error + MessageResponse) \<times> database" where
  "send_message new_id now message_data current_user db =
     (case check_ticket_permissions db (mc_ticket_id message_data) current_user of
        Inl e \<Rightarrow> (Inl e, db)
      | Inr has_permission \<Rightarrow>
          if \<not> has_permission
          then (Inl (HTTPException 403 ''Not authorized to send messages to this ticket''), db)
          else
            let db1 = send_message_insert new_id now message_data current_user db;
                db2 = send_message_count now message_data db1
            in case find (\<lambda>d. m_id d = new_id) (messages db2) of
                 None \<Rightarrow> (Inl ValidationError, db2)
               | Some created_message \<Rightarrow>
                   (Inr (message_response_of (sender_profile_of current_user) created_message),
                    db2))"

text \<open>\<open>delete_message\<close>, again two writes: the delete, then the decrement on the ticket
  that the deleted message named.\<close>

definition delete_message ::
  "string \<Rightarrow> UserResponse \<Rightarrow> database \<Rightarrow> (error + unit) \<times> database" where
  "delete_message message_id current_user db =
     (if \<not> is_valid message_id then (Inl (HTTPException 400 ''Invalid message ID format''), db)
      else case find (\<lambda>d. m_id d = ObjectId message_id) (messages db) of
        None \<Rightarrow> (Inl (HTTPException 404 ''Message not found''), db)
      | Some message \<Rightarrow>
          if m_sender_id message \<noteq> ur_id current_user
          then (Inl (HTTPException 403 ''Not authorized to delete this message''), db)
          else
            let db1 = db\<lparr>messages := delete_one (\<lambda>d. m_id d = ObjectId message_id)
                                          (messages db)\<rparr>;
                db2 = db1\<lparr>tickets := update_one (\<lambda>t. t_id t = m_ticket_id message)
                                  (\<lambda>t. t\<lparr>t_message_count := t_message_count t - 1\<rparr>)
                                  (tickets db1)\<rparr>
            in (Inr (), db2))"

text \<open>
  What relational integrity would require: that the ticket a message or a notification
  names exists, and that a ticket's \<open>message_count\<close> is the number of its messages.
\<close>

definition ticket_exists :: "database \<Rightarrow> oid \<Rightarrow> bool" where
  "ticket_exists db i = list_ex (\<lambda>t. t_id t = i) (tickets db)"

definition dangling_messages :: "database \<Rightarrow> message_doc list" where
  "dangling_messages db = filter (\<lambda>d. \<not> ticket_exists db (m_ticket_id d)) (messages db)"

definition dangling_notifications :: "database \<Rightarrow> notification_doc list" where
  "dangling_notifications db =
     filter (\<lambda>d. case n_ticket_id d of None \<Rightarrow> False | Some i \<Rightarrow> \<not> ticket_exists db i)
       (notifications db)"

definition count_drift :: "database \<Rightarrow> ticket_doc list" where
  "count_drift db =
     filter (\<lambda>t. t_message_count t \<noteq> count_documents (\<lambda>d. m_ticket_id d = t_id t) (messages db))
       (tickets db)"

text \<open>A chat message of \<open>alice\<close> on her first ticket.\<close>

definition hello_message :: MessageCreate where
  "hello_message = \<lparr>mc_content = ''Hello'', mc_message_type = ''text'',
      mc_ticket_id = ''65b000000000000000000001''\<rparr>"

text \<open>
  A run from the example database: \<open>alice\<close> closes her first ticket with
  \<open>update_ticket\<close> (which notifies her), posts a chat message to it, and the agent
  \<open>bob\<close> deletes the ticket; and the database between the two writes of that
  \<open>send_message\<close>.
\<close>

definition db_after_update :: database where
  "db_after_update = fst (snd (update_ticket io_ok ''65c000000000000000000001''
      ''65c000000000000000000002'' 40 ''65b000000000000000000001'' close_update
      (user_response_of user_a) example_db init_manager))"

definition db_between_writes :: database where
  "db_between_writes = send_message_insert ''65d000000000000000000001'' 50 hello_message
      (user_response_of user_a) db_after_update"

definition db_after_message :: database where
  "db_after_message = snd (send_message ''65d000000000000000000001'' 50 hello_message
      (user_response_of user_a) db_after_update)"

definition db_after_delete :: database where
  "db_after_delete = snd (delete_ticket ''65b000000000000000000001'' (user_response_of user_b)
      db_after_message)"

section \<open>Properties of the registry\<close>

lemma map_of_update_same: "map_of (AList.update k v al) k = Some v"
  by (simp add: update_conv')

lemma distinct_update_keys:
  "distinct (map fst al) \<Longrightarrow> distinct (map fst (AList.update k v al))"
  by (simp add: distinct_update)

lemma filter_key_absent:
  "k \<notin> fst ` set al \<Longrightarrow> filter (\<lambda>p. fst p = k) al = []"
  by (induction al) auto

lemma filter_key_update:
  "distinct (map fst al) \<Longrightarrow> length (filter (\<lambda>p. fst p = k) (AList.update k v al)) = 1"
  by (induction al) (auto simp: filter_key_absent)

lemma close_socket_fields [simp]:
  "active_connections (close_socket io w c m) = active_connections m"
  "admin_connections (close_socket io w c m) = admin_connections m"
  "user_roles (close_socket io w c m) = user_roles m"
  "sent (close_socket io w c m) = sent m"
  by (simp_all add: close_socket_def)

text \<open>
  C1. After \<open>register_connection(websocket, user_id, user_role)\<close>, from every registry
  state and whatever the old socket does on \<open>close\<close>, \<open>active_connections[user_id]\<close> is
  the new websocket and \<open>user_roles[user_id]\<close> is the new role. The user has one entry
  (the key occurs once when the keys were unique before), and a connection registered
  before is closed first, with code 1000, unless closing raises.
\<close>

theorem register_connection_last_write_wins:
  "map_of (active_connections (register_connection io w u r m)) u = Some w
   \<and> map_of (user_roles (register_connection io w u r m)) u = Some r
   \<and> (distinct (map fst (active_connections m))
        \<longrightarrow> distinct (map fst (active_connections (register_connection io w u r m)))
            \<and> length (filter (\<lambda>p. fst p = u) (active_connections (register_connection io w u r m))) = 1)
   \<and> closed (register_connection io w u r m) =
        (case map_of (active_connections m) u of
           None \<Rightarrow> closed m
         | Some old \<Rightarrow> if close_raises io old then closed m else closed m @ [(old, 1000)])"
  by (auto simp: register_connection_def Let_def map_of_update_same distinct_update_keys
        filter_key_update close_socket_def split: option.splits)

theorem register_connection_last_write_wins_witness:
  "distinct (map fst (active_connections
       (register_connection io_ok 1 ''u1'' ''customer'' init_manager)))
   \<and> active_connections
        (register_connection io_ok 2 ''u1'' ''admin''
          (register_connection io_ok 1 ''u1'' ''customer'' init_manager)) = [(''u1'', 2)]
   \<and> closed
        (register_connection io_ok 2 ''u1'' ''admin''
          (register_connection io_ok 1 ''u1'' ''customer'' init_manager)) = [(1, 1000)]
   \<and> length (filter (\<lambda>p. fst p = ''u1'')
        (active_connections
          (register_connection io_ok 2 ''u1'' ''admin''
            (register_connection io_ok 1 ''u1'' ''customer'' init_manager)))) = 1"
  using register_connection_last_write_wins
    [of io_ok 2 "''u1''" "''admin''" "register_connection io_ok 1 ''u1'' ''customer'' init_manager"]
  by (simp add: register_connection_def init_manager_def io_ok_def close_socket_def Let_def)

lemma map_of_delete_same: "map_of (AList.delete k al) k = None"
  by (simp add: delete_conv')

lemma inv_init: "registry_inv init_manager"
  by (simp add: registry_inv_def init_manager_def)

lemma keys_update: "fst ` set (AList.update k v al) = insert k (fst ` set al)"
  using update_keys [of k v al] by (auto simp flip: set_map)

lemma keys_delete: "fst ` set (AList.delete k al) = fst ` set al - {k}"
  using delete_keys [of k al] by (auto simp flip: set_map)

lemma inv_close_socket: "registry_inv (close_socket io w c m) = registry_inv m"
  by (simp add: registry_inv_def close_socket_def)

lemma inv_register_core:
  "registry_inv m \<Longrightarrow>
   registry_inv (m\<lparr>active_connections := AList.update u w (active_connections m),
                    user_roles := AList.update u r (user_roles m)\<rparr>)"
  by (auto simp: registry_inv_def keys_update distinct_update)

lemma inv_admin_insert:
  "registry_inv m \<Longrightarrow> u \<in> fst ` set (active_connections m) \<Longrightarrow>
   registry_inv (m\<lparr>admin_connections := List.insert u (admin_connections m)\<rparr>)"
  by (auto simp: registry_inv_def)

lemma inv_register: "registry_inv m \<Longrightarrow> registry_inv (register_connection io w u r m)"
proof -
  assume inv: "registry_inv m"
  define m1 where "m1 = (case map_of (active_connections m) u of
                  Some old_websocket \<Rightarrow> close_socket io old_websocket 1000 m
                | None \<Rightarrow> m)"
  define m2 where "m2 = m1\<lparr>active_connections := AList.update u w (active_connections m1),
                  user_roles := AList.update u r (user_roles m1)\<rparr>"
  have "registry_inv m1"
    using inv by (simp add: m1_def inv_close_socket split: option.splits)
  then have i2: "registry_inv m2"
    unfolding m2_def by (rule inv_register_core)
  have "u \<in> fst ` set (active_connections m2)"
    by (simp add: m2_def keys_update)
  with i2 have "registry_inv (m2\<lparr>admin_connections := List.insert u (admin_connections m2)\<rparr>)"
    by (rule inv_admin_insert)
  with i2 show ?thesis
    by (simp add: register_connection_def Let_def m1_def [symmetric] m2_def [symmetric])
qed

lemma inv_disconnect: "registry_inv m \<Longrightarrow> registry_inv (disconnect u m)"
  by (auto simp: registry_inv_def disconnect_def keys_delete distinct_delete distinct_removeAll)

lemma inv_sent_update: "registry_inv (m\<lparr>sent := s\<rparr>) = registry_inv m"
  by (simp add: registry_inv_def)

lemma inv_send_personal: "registry_inv m \<Longrightarrow> registry_inv (send_personal_message io msg u m)"
  by (auto simp: send_personal_message_def inv_sent_update inv_disconnect
        split: option.splits send_outcome.splits)

lemma inv_broadcast_step:
  "registry_inv (fst st) \<Longrightarrow> registry_inv (fst (broadcast_step io msg u w st))"
  by (auto simp: broadcast_step_def inv_sent_update split: send_outcome.splits)

lemma inv_admins_loop:
  "registry_inv (fst st) \<Longrightarrow> registry_inv (fst (admins_loop io msg us st))"
  by (induction us arbitrary: st) (auto simp: inv_broadcast_step split: option.splits)

lemma inv_all_loop:
  "registry_inv (fst st) \<Longrightarrow> registry_inv (fst (all_loop io msg ps st))"
proof (induction ps arbitrary: st)
  case Nil
  then show ?case by simp
next
  case (Cons p ps)
  obtain u w where p: "p = (u, w)" by (cases p)
  have "registry_inv (fst (broadcast_step io msg u w st))"
    using Cons.prems by (rule inv_broadcast_step)
  then show ?case
    using Cons.IH p by simp
qed

lemma inv_disconnect_all: "registry_inv m \<Longrightarrow> registry_inv (disconnect_all us m)"
  by (induction us arbitrary: m) (auto simp: inv_disconnect)

lemma inv_broadcast_admins: "registry_inv m \<Longrightarrow> registry_inv (broadcast_to_admins io msg m)"
  by (simp add: broadcast_to_admins_def Let_def inv_disconnect_all inv_admins_loop)

lemma inv_broadcast_all: "registry_inv m \<Longrightarrow> registry_inv (broadcast_to_all io msg m)"
  by (simp add: broadcast_to_all_def Let_def inv_disconnect_all inv_all_loop)

lemma inv_send_to_users: "registry_inv m \<Longrightarrow> registry_inv (send_to_users io msg us m)"
  by (induction us arbitrary: m) (auto simp: inv_send_personal)

lemma inv_apply_op: "registry_inv m \<Longrightarrow> registry_inv (apply_op io op m)"
  by (cases op)
     (auto simp: inv_register inv_disconnect inv_send_personal inv_broadcast_admins
        inv_broadcast_all send_notification_def send_ticket_update_def Let_def
        send_new_ticket_alert_def inv_send_to_users
        split: option.splits list.splits)

lemma inv_run_ops: "registry_inv m \<Longrightarrow> registry_inv (run_ops ops m)"
  by (induction ops arbitrary: m) (auto simp: inv_apply_op)

lemma inv_customer_nonneg:
  assumes "registry_inv m"
  shows "0 \<le> customer_connections (get_connection_info m)"
proof -
  from assms have sub: "set (admin_connections m) \<subseteq> set (map fst (active_connections m))"
    and d: "distinct (admin_connections m)"
    by (simp_all add: registry_inv_def)
  have "length (admin_connections m) = card (set (admin_connections m))"
    using d by (simp add: distinct_card)
  also have "\<dots> \<le> card (set (map fst (active_connections m)))"
    using sub by (intro card_mono) simp_all
  also have "\<dots> \<le> length (map fst (active_connections m))"
    by (rule card_length)
  finally show ?thesis by (simp add: get_connection_info_def)
qed

text \<open>
  C9. In every state reached from the empty registry by any sequence of
  \<open>register_connection\<close>, \<open>disconnect\<close>, \<open>send_personal_message\<close>,
  \<open>broadcast_to_admins\<close>, \<open>broadcast_to_all\<close> and the typed senders built on them,
  whatever the sockets do, \<open>admin_connections\<close> is a subset of the keys of
  \<open>active_connections\<close>, the keys of \<open>user_roles\<close> are the keys of
  \<open>active_connections\<close>, and the \<open>customer_connections\<close> count of
  \<open>get_connection_info\<close> is not negative.
\<close>

theorem registry_consistency:
  "set (admin_connections (run_ops ops init_manager))
      \<subseteq> set (map fst (active_connections (run_ops ops init_manager)))
   \<and> set (map fst (user_roles (run_ops ops init_manager)))
      = set (map fst (active_connections (run_ops ops init_manager)))
   \<and> 0 \<le> customer_connections (get_connection_info (run_ops ops init_manager))"
proof -
  have "registry_inv (run_ops ops init_manager)"
    by (rule inv_run_ops [OF inv_init])
  then show ?thesis
    using inv_customer_nonneg by (simp add: registry_inv_def)
qed

theorem registry_consistency_witness:
  "admin_connections
     (run_ops [(io_ok, Register 1 ''a'' ''admin''), (io_ok, Register 2 ''b'' ''customer''),
               (io_broken, Send_personal PNone ''a'')] init_manager) = []
   \<and> map fst (active_connections
     (run_ops [(io_ok, Register 1 ''a'' ''admin''), (io_ok, Register 2 ''b'' ''customer''),
               (io_broken, Send_personal PNone ''a'')] init_manager)) = [''b'']
   \<and> 0 \<le> customer_connections (get_connection_info
     (run_ops [(io_ok, Register 1 ''a'' ''admin''), (io_ok, Register 2 ''b'' ''customer''),
               (io_broken, Send_personal PNone ''a'')] init_manager))"
  using registry_consistency
    [of "[(io_ok, Register 1 ''a'' ''admin''), (io_ok, Register 2 ''b'' ''customer''),
          (io_broken, Send_personal PNone ''a'')]"]
  by (simp add: register_connection_def init_manager_def io_ok_def io_broken_def
        send_personal_message_def try_send_def disconnect_def Let_def)

text \<open>
  C8. \<open>disconnect\<close> is keyed by the user id alone: after \<open>disconnect(u)\<close>,
  \<open>is_user_connected(u)\<close> is false whatever was registered. After
  \<open>register_connection(w1, u)\<close>, \<open>register_connection(w2, u)\<close> the registry holds \<open>w2\<close>
  for \<open>u\<close>, and the \<open>disconnect(u)\<close> that follows removes it, although no \<open>close\<close> was
  ever called on \<open>w2\<close> (given \<open>w2\<close> is another socket than \<open>w1\<close>, was not closed before and
  was not the one registered for \<open>u\<close> at the start).
\<close>

theorem disconnect_keyed_by_user:
  "\<not> is_user_connected (disconnect u m) u
   \<and> map_of (active_connections (register_connection io2 w2 u r2 (register_connection io1 w1 u r1 m))) u = Some w2
   \<and> \<not> is_user_connected
         (disconnect u (register_connection io2 w2 u r2 (register_connection io1 w1 u r1 m))) u
   \<and> (w2 \<noteq> w1 \<and> w2 \<notin> fst ` set (closed m) \<and> map_of (active_connections m) u \<noteq> Some w2
        \<longrightarrow> w2 \<notin> fst ` set (closed
               (disconnect u (register_connection io2 w2 u r2 (register_connection io1 w1 u r1 m)))))"
  by (auto simp: is_user_connected_def disconnect_def map_of_delete_same register_connection_def
        Let_def map_of_update_same close_socket_def split: option.splits if_splits)

theorem disconnect_keyed_by_user_witness:
  "(2::nat) \<noteq> 1 \<and> 2 \<notin> fst ` set (closed init_manager)
   \<and> map_of (active_connections init_manager) ''u1'' \<noteq> Some 2
   \<and> active_connections
        (register_connection io_ok 2 ''u1'' ''customer''
          (register_connection io_ok 1 ''u1'' ''customer'' init_manager)) = [(''u1'', 2)]
   \<and> active_connections
        (disconnect ''u1'' (register_connection io_ok 2 ''u1'' ''customer''
          (register_connection io_ok 1 ''u1'' ''customer'' init_manager))) = []
   \<and> 2 \<notin> fst ` set (closed
        (disconnect ''u1'' (register_connection io_ok 2 ''u1'' ''customer''
          (register_connection io_ok 1 ''u1'' ''customer'' init_manager))))"
  using disconnect_keyed_by_user
    [of "''u1''" init_manager io_ok 2 "''customer''" io_ok 1 "''customer''"]
  by (simp add: register_connection_def init_manager_def io_ok_def close_socket_def
        disconnect_def Let_def)

section \<open>Properties of notification delivery\<close>

lemma delete_changes: "map_of al k \<noteq> None \<Longrightarrow> AList.delete k al \<noteq> al"
proof
  assume a: "map_of al k \<noteq> None" and e: "AList.delete k al = al"
  have "map_of (AList.delete k al) k = None" by (simp add: delete_conv')
  with e a show False by simp
qed

lemma disconnect_changes: "is_user_connected m u \<Longrightarrow> disconnect u m \<noteq> m"
proof
  assume c: "is_user_connected m u" and e: "disconnect u m = m"
  from e have "active_connections (disconnect u m) = active_connections m" by simp
  then have "AList.delete u (active_connections m) = active_connections m"
    by (simp add: disconnect_def)
  with delete_changes [of "active_connections m" u] c show False
    by (simp add: is_user_connected_def)
qed

lemma sent_append_changes: "m\<lparr>sent := sent m @ [x]\<rparr> \<noteq> m"
proof
  assume "m\<lparr>sent := sent m @ [x]\<rparr> = m"
  then have "sent (m\<lparr>sent := sent m @ [x]\<rparr>) = sent m" by simp
  then show False by simp
qed

lemma send_personal_cases:
  "send_personal_message io frame u m =
     (case map_of (active_connections m) u of
        None \<Rightarrow> m
      | Some w \<Rightarrow> if try_send io w frame = Send_ok then m\<lparr>sent := sent m @ [(w, frame)]\<rparr>
                  else disconnect u m)"
  by (simp add: send_personal_message_def split: option.splits send_outcome.splits)

lemma send_personal_changes:
  "is_user_connected m u \<Longrightarrow> send_personal_message io frame u m \<noteq> m"
  by (auto simp: send_personal_cases is_user_connected_def sent_append_changes
        disconnect_changes split: option.splits)

lemma send_personal_sent_length:
  "length (sent (send_personal_message io frame u m)) \<le> length (sent m) + 1"
  by (simp add: send_personal_cases disconnect_def split: option.splits)

lemma websocket_data_not_serializable: "\<not> json_serializable (notification_frame r)"
  by (simp add: notification_frame_def websocket_data_of_def)

lemma find_appended:
  "find P (xs @ [x]) = (case find P xs of Some y \<Rightarrow> Some y | None \<Rightarrow> if P x then Some x else None)"
  by (induction xs) auto

lemma cabn_invalid:
  "\<not> (is_valid user_id \<and> ticket_id_ok ticket_id) \<Longrightarrow>
   create_and_broadcast_notification io new_id now user_id nt title msg data ticket_id priority db m
     = (Inl InvalidId, db, m)"
  by (auto simp: create_and_broadcast_notification_def ticket_id_ok_def)

lemma cabn_valid_db:
  assumes "is_valid user_id" "ticket_id_ok ticket_id"
  shows "fst (snd (create_and_broadcast_notification io new_id now user_id nt title msg data
             ticket_id priority db m))
         = db\<lparr>notifications := notifications db @
              [notification_document new_id now user_id nt title msg data ticket_id priority]\<rparr>"
  using assms
  by (auto simp: create_and_broadcast_notification_def ticket_id_ok_def Let_def
        notification_document_def split: option.splits)

lemma cabn_db_independent:
  "fst (snd (create_and_broadcast_notification io new_id now user_id nt title msg data
             ticket_id priority db m))
   = fst (snd (create_and_broadcast_notification io2 new_id now user_id nt title msg data
             ticket_id priority db m2))"
proof (cases "is_valid user_id \<and> ticket_id_ok ticket_id")
  case True
  then show ?thesis by (simp add: cabn_valid_db)
next
  case False
  then show ?thesis by (simp add: cabn_invalid)
qed

lemma cabn_manager:
  "snd (snd (create_and_broadcast_notification io new_id now user_id nt title msg data
             ticket_id priority db m))
   = (case fst (create_and_broadcast_notification io new_id now user_id nt title msg data
             ticket_id priority db m) of
        Inl e \<Rightarrow> m
      | Inr r \<Rightarrow> if is_user_connected m user_id
                 then send_personal_message io (notification_frame r) user_id m else m)"
  by (auto simp: create_and_broadcast_notification_def ticket_id_ok_def Let_def
        send_notification_def notification_frame_def notification_document_def
        split: option.splits)

lemma cabn_never_sends:
  "sent (snd (snd (create_and_broadcast_notification io new_id now user_id nt title msg data
                     ticket_id priority db m))) = sent m"
proof -
  have "sent (send_personal_message io (notification_frame r) user_id m) = sent m" for r
    using websocket_data_not_serializable [of r]
    by (simp add: send_personal_message_def try_send_def disconnect_def
          split: option.splits send_outcome.splits)
  then show ?thesis
    by (simp add: cabn_manager split: sum.splits)
qed

lemma cabn_connected_deregisters:
  assumes "fst (create_and_broadcast_notification io new_id now user_id nt title msg data
                  ticket_id priority db m) = Inr r"
    and "is_user_connected m user_id"
  shows "snd (snd (create_and_broadcast_notification io new_id now user_id nt title msg data
                     ticket_id priority db m)) = disconnect user_id m"
proof -
  have "send_personal_message io (notification_frame r) user_id m = disconnect user_id m"
    using websocket_data_not_serializable [of r] assms(2)
    by (auto simp: send_personal_message_def try_send_def is_user_connected_def
          split: option.splits send_outcome.splits)
  then show ?thesis
    using assms by (simp add: cabn_manager)
qed

text \<open>
  C2. Notification delivery is meant to be "send if connected": the document is inserted
  whether or not the user is connected, and a connected user is sent the notification
  over the socket. The insert is as claimed (\<open>cabn_db_independent\<close>), but the send is
  not: the frame built from \<open>notification_response.dict()\<close> still holds the \<open>ObjectId\<close>
  of \<open>user_id\<close> and the \<open>datetime\<close> of \<open>created_at\<close>, so \<open>json.dumps\<close> raises inside
  \<open>send_personal_message\<close> before \<open>send_text\<close> is reached, and the handler deregisters
  the user. Here a user is registered on socket 1, every socket is connected and every
  \<open>send_text\<close> would succeed; the call returns the response and writes the document,
  yet no frame is sent and the user is no longer connected afterwards.
\<close>

theorem notification_not_delivered_to_connected_user:
  "create_and_broadcast_notification io_ok ''65a000000000000000000001'' 7
       ''507f1f77bcf86cd799439011'' SYSTEM_ALERT ''Alert'' ''Hello'' None None ''medium''
       empty_database
       (register_connection io_ok 1 ''507f1f77bcf86cd799439011'' ''customer'' init_manager)
     = (Inr \<lparr>nr_id = ''65a000000000000000000001'', nr_user_id = ''507f1f77bcf86cd799439011'',
              nr_title = ''Alert'', nr_message = ''Hello'',
              nr_notification_type = ''system_alert'', nr_priority = ''medium'',
              nr_is_read = False, nr_read_at = None, nr_created_at = 7\<rparr>,
        empty_database\<lparr>notifications :=
          [notification_document ''65a000000000000000000001'' 7 ''507f1f77bcf86cd799439011''
             SYSTEM_ALERT ''Alert'' ''Hello'' None None ''medium'']\<rparr>,
        init_manager)
   \<and> send_result io_ok 1 = Send_ok
   \<and> map_of (active_connections
        (register_connection io_ok 1 ''507f1f77bcf86cd799439011'' ''customer'' init_manager))
        ''507f1f77bcf86cd799439011'' = Some 1
   \<and> sent init_manager = []
   \<and> \<not> is_user_connected init_manager ''507f1f77bcf86cd799439011''"
  by (simp add: create_and_broadcast_notification_def is_valid_def is_hex_digit_def
        ObjectId_def lower_hex_def Let_def empty_database_def notification_document_def
        notification_priorities_def notification_response_of_def is_user_connected_def
        register_connection_def init_manager_def io_ok_def send_notification_def
        send_personal_message_def try_send_def websocket_data_of_def disconnect_def)

section \<open>Properties of registration\<close>

lemma find_None_iff': "(find P xs = None) = (\<forall>x \<in> set xs. \<not> P x)"
  by (induction xs) auto

lemma find_Some_D: "find P xs = Some x \<Longrightarrow> x \<in> set xs \<and> P x"
  by (induction xs) (auto split: if_splits)

lemma find_append_last:
  "find P (xs @ [x]) = (case find P xs of Some y \<Rightarrow> Some y | None \<Rightarrow> if P x then Some x else None)"
  by (induction xs) auto






section \<open>Properties of the notification routes\<close>

lemma filter_update_one:
  "(\<And>d. P d \<Longrightarrow> \<not> Q d \<and> \<not> Q (f d)) \<Longrightarrow> filter Q (update_one P f ds) = filter Q ds"
  by (induction ds) auto

lemma filter_update_many:
  "(\<And>d. P d \<Longrightarrow> \<not> Q d \<and> \<not> Q (f d)) \<Longrightarrow> filter Q (update_many P f ds) = filter Q ds"
  by (induction ds) (auto simp: update_many_def)

lemma filter_delete_one:
  "(\<And>d. P d \<Longrightarrow> \<not> Q d) \<Longrightarrow> filter Q (delete_one P ds) = filter Q ds"
  by (induction ds) auto

lemma update_one_no_match: "\<not> list_ex P ds \<Longrightarrow> update_one P f ds = ds"
  by (induction ds) auto

lemma delete_one_no_match: "\<not> list_ex P ds \<Longrightarrow> delete_one P ds = ds"
  by (induction ds) auto

lemma others_mark:
  "others_notifications (ObjectId (ur_id u)) (snd (mark_notification_read now nid u db))
   = others_notifications (ObjectId (ur_id u)) db"
  by (auto simp: mark_notification_read_def others_notifications_def Let_def mark_read_def
        intro!: filter_update_one)

lemma others_bulk:
  "others_notifications (ObjectId (ur_id u)) (snd (bulk_update_notifications now b u db))
   = others_notifications (ObjectId (ur_id u)) db"
proof -
  have keep: "n_user_id (bulk_set now flag d) = n_user_id d" for flag d
    by (simp add: bulk_set_def)
  show ?thesis
    by (auto simp: bulk_update_notifications_def others_notifications_def Let_def keep
          intro!: filter_update_many)
qed

lemma others_delete:
  "others_notifications (ObjectId (ur_id u)) (snd (delete_notification nid u db))
   = others_notifications (ObjectId (ur_id u)) db"
  by (auto simp: delete_notification_def others_notifications_def Let_def
        intro!: filter_delete_one)

lemma mark_404:
  "is_valid nid \<Longrightarrow>
   \<not> list_ex (\<lambda>d. n_id d = ObjectId nid \<and> n_user_id d = ObjectId (ur_id u)) (notifications db) \<Longrightarrow>
   mark_notification_read now nid u db = (Inl (HTTPException 404 ''Notification not found''), db)"
  by (simp add: mark_notification_read_def Let_def matched_count_def update_one_no_match)

lemma delete_404:
  "is_valid nid \<Longrightarrow>
   \<not> list_ex (\<lambda>d. n_id d = ObjectId nid \<and> n_user_id d = ObjectId (ur_id u)) (notifications db) \<Longrightarrow>
   delete_notification nid u db = (Inl (HTTPException 404 ''Notification not found''), db)"
  by (simp add: delete_notification_def Let_def matched_count_def delete_one_no_match)

lemma other_collections:
  "users (snd (mark_notification_read now nid u db)) = users db"
  "tickets (snd (mark_notification_read now nid u db)) = tickets db"
  "messages (snd (mark_notification_read now nid u db)) = messages db"
  "users (snd (bulk_update_notifications now b u db)) = users db"
  "tickets (snd (bulk_update_notifications now b u db)) = tickets db"
  "messages (snd (bulk_update_notifications now b u db)) = messages db"
  "users (snd (delete_notification nid u db)) = users db"
  "tickets (snd (delete_notification nid u db)) = tickets db"
  "messages (snd (delete_notification nid u db)) = messages db"
  by (simp_all add: mark_notification_read_def bulk_update_notifications_def
        delete_notification_def Let_def)

text \<open>
  C10. \<open>mark_notification_read\<close>, \<open>bulk_update_notifications\<close> and
  \<open>delete_notification\<close> called by user \<open>u\<close> leave the notifications of every other user
  as they were (the same documents in the same order); and when no notification with the
  given identifier belongs to \<open>u\<close>, also when one exists that belongs to someone else,
  \<open>mark_notification_read\<close> and \<open>delete_notification\<close> answer 404 and change nothing.
\<close>

theorem notification_mutations_scoped:
  "others_notifications (ObjectId (ur_id u)) (snd (mark_notification_read now nid u db))
     = others_notifications (ObjectId (ur_id u)) db
   \<and> others_notifications (ObjectId (ur_id u)) (snd (bulk_update_notifications now b u db))
     = others_notifications (ObjectId (ur_id u)) db
   \<and> others_notifications (ObjectId (ur_id u)) (snd (delete_notification nid u db))
     = others_notifications (ObjectId (ur_id u)) db
   \<and> (is_valid nid \<and>
       \<not> list_ex (\<lambda>d. n_id d = ObjectId nid \<and> n_user_id d = ObjectId (ur_id u)) (notifications db)
       \<longrightarrow> mark_notification_read now nid u db
             = (Inl (HTTPException 404 ''Notification not found''), db)
           \<and> delete_notification nid u db
             = (Inl (HTTPException 404 ''Notification not found''), db))"
  using others_mark others_bulk others_delete mark_404 delete_404 by blast

theorem notification_mutations_scoped_witness:
  "is_valid ''65a0000000000000000000d4''
   \<and> n_id notification_of_bob = ObjectId ''65a0000000000000000000d4''
   \<and> n_user_id notification_of_bob \<noteq> ObjectId (ur_id (user_response_of user_a))
   \<and> mark_notification_read 5 ''65a0000000000000000000d4'' (user_response_of user_a)
        (empty_database\<lparr>notifications := [notification_of_bob]\<rparr>)
      = (Inl (HTTPException 404 ''Notification not found''),
         empty_database\<lparr>notifications := [notification_of_bob]\<rparr>)
   \<and> delete_notification ''65a0000000000000000000d4'' (user_response_of user_a)
        (empty_database\<lparr>notifications := [notification_of_bob]\<rparr>)
      = (Inl (HTTPException 404 ''Notification not found''),
         empty_database\<lparr>notifications := [notification_of_bob]\<rparr>)
   \<and> others_notifications (ObjectId (ur_id (user_response_of user_a)))
        (snd (bulk_update_notifications 5
           \<lparr>notification_ids = [''65a0000000000000000000d4''], bulk_is_read = True\<rparr>
           (user_response_of user_a) (empty_database\<lparr>notifications := [notification_of_bob]\<rparr>)))
      = [notification_of_bob]"
  using notification_mutations_scoped [of "user_response_of user_a" 5 "''65a0000000000000000000d4''"
      "empty_database\<lparr>notifications := [notification_of_bob]\<rparr>"
      "\<lparr>notification_ids = [''65a0000000000000000000d4''], bulk_is_read = True\<rparr>"]
  by (simp add: is_valid_def is_hex_digit_def ObjectId_def lower_hex_def notification_of_bob_def
        user_response_of_def user_a_def empty_database_def others_notifications_def)

section \<open>Properties of the ticket routes\<close>

lemma div_unique_pos:
  fixes a b q r :: int
  assumes "a = q * b + r" "0 \<le> r" "r < b"
  shows "a div b = q"
proof -
  have "a div b = (r + q * b) div b" using assms(1) by (simp add: add.commute)
  also have "\<dots> = q + r div b" using assms(2,3) by simp
  also have "\<dots> = q" using assms(2,3) by simp
  finally show ?thesis .
qed

lemma neg_div_ceil:
  fixes a b :: int
  assumes "0 < b"
  shows "- ((- a) div b) = (a + b - 1) div b"
proof (cases "a mod b = 0")
  case True
  have "a = (a div b) * b + a mod b" by simp
  with True have "a = (a div b) * b" by simp
  then have "a + b - 1 = (a div b) * b + (b - 1)" by simp
  then have "(a + b - 1) div b = a div b"
    using assms by (intro div_unique_pos [where r = "b - 1"]) simp_all
  then show ?thesis using True assms by (simp add: zdiv_zminus1_eq_if)
next
  case False
  have r: "0 \<le> a mod b" "a mod b < b" using assms by simp_all
  with False have r1: "0 \<le> a mod b - 1" by simp
  have "a = (a div b) * b + a mod b" by simp
  then have "a + b - 1 = (a div b + 1) * b + (a mod b - 1)" by (simp add: algebra_simps)
  then have "(a + b - 1) div b = a div b + 1"
    using r r1 by (intro div_unique_pos [where r = "a mod b - 1"]) simp_all
  then show ?thesis using False assms by (simp add: zdiv_zminus1_eq_if)
qed

lemma math_ceil_div_int:
  "0 < per_page \<Longrightarrow> math_ceil_div n per_page = (n + per_page - 1) div per_page"
  by (simp add: math_ceil_div_def ceiling_divide_eq_div neg_div_ceil)

lemma math_ceil_div_least:
  assumes "0 < per_page"
  shows "n \<le> math_ceil_div n per_page * per_page"
    and "(math_ceil_div n per_page - 1) * per_page < n"
proof -
  have a: "real_of_int n / real_of_int per_page \<le> real_of_int (math_ceil_div n per_page)"
    by (simp add: math_ceil_div_def)
  have b: "real_of_int (math_ceil_div n per_page) - 1 < real_of_int n / real_of_int per_page"
    by (simp add: math_ceil_div_def) linarith
  have p: "0 < real_of_int per_page" using assms by simp
  from a p have "real_of_int n \<le> real_of_int (math_ceil_div n per_page) * real_of_int per_page"
    by (simp add: pos_divide_le_eq)
  then show "n \<le> math_ceil_div n per_page * per_page"
    by (metis of_int_le_iff of_int_mult)
  from b p have "(real_of_int (math_ceil_div n per_page) - 1) * real_of_int per_page < real_of_int n"
    by (simp add: pos_less_divide_eq)
  then have "real_of_int ((math_ceil_div n per_page - 1) * per_page) < real_of_int n"
    by simp
  then show "(math_ceil_div n per_page - 1) * per_page < n"
    by (simp only: of_int_less_iff)
qed


lemma ts_id_summary: "map ts_id (map (ticket_summary_of db) ds) = map t_id ds"
  by (simp add: ticket_summary_of_def comp_def)

text \<open>
  C5. For \<open>page \<ge> 1\<close> and \<open>1 \<le> per_page \<le> 100\<close>, \<open>get_tickets\<close> returns a
  \<open>PaginatedTickets\<close> whose \<open>total\<close> is the number of documents matching the query,
  \<open>pages\<close> is the ceiling of \<open>total / per_page\<close> (the least number of pages of that size
  that hold \<open>total\<close> documents), \<open>has_next\<close> is \<open>page < pages\<close>, \<open>has_prev\<close> is
  \<open>page > 1\<close>; the tickets returned are those of the sorted matches after skipping exactly
  \<open>(page - 1) * per_page\<close> of them, at most \<open>per_page\<close> many.
\<close>

theorem ticket_list_pagination:
  assumes "1 \<le> page" "1 \<le> per_page" "per_page \<le> 100"
  shows "\<exists>r. get_tickets text_search page per_page status priority category search
                current_user db = Inr r
     \<and> pt_total r = int (length (matching_tickets text_search status priority category search
                                   current_user db))
     \<and> pt_pages r = \<lceil>real_of_int (pt_total r) / real_of_int per_page\<rceil>
     \<and> pt_pages r = (pt_total r + per_page - 1) div per_page
     \<and> pt_total r \<le> pt_pages r * per_page
     \<and> (pt_pages r - 1) * per_page < pt_total r
     \<and> pt_has_next r = (page < pt_pages r)
     \<and> pt_has_prev r = (page > 1)
     \<and> map ts_id (pt_tickets r)
         = map t_id (take (nat per_page) (drop (nat ((page - 1) * per_page))
             (matching_tickets text_search status priority category search current_user db)))
     \<and> int (length (pt_tickets r)) \<le> per_page
     \<and> int (length (pt_tickets r))
         = min per_page (max 0 (pt_total r - (page - 1) * per_page))"
proof -
  let ?ms = "matching_tickets text_search status priority category search current_user db"
  let ?n = "int (length ?ms)"
  let ?r = "\<lparr>pt_tickets = map (ticket_summary_of db)
               (take (nat per_page) (drop (nat ((page - 1) * per_page)) ?ms)),
             pt_total = ?n, pt_page = page, pt_per_page = per_page,
             pt_pages = math_ceil_div ?n per_page,
             pt_has_next = (page < math_ceil_div ?n per_page), pt_has_prev = (page > 1)\<rparr>"
  have pos: "0 < per_page" using assms by simp
  have r: "get_tickets text_search page per_page status priority category search
                current_user db = Inr ?r"
    using assms
    by (simp add: get_tickets_def Let_def matching_tickets_def count_documents_def)
  have sk: "0 \<le> (page - 1) * per_page" using assms by simp
  define k where "k = (page - 1) * per_page"
  have k0: "0 \<le> k" using sk by (simp add: k_def)
  have "length (take (nat per_page) (drop (nat k) ?ms)) = min (nat per_page) (length ?ms - nat k)"
    by simp
  then have "int (length (take (nat per_page) (drop (nat k) ?ms)))
        = min per_page (max 0 (?n - k))"
    using pos k0 by (simp only:) (simp add: min_def max_def; linarith)
  then have len: "int (length (take (nat per_page) (drop (nat ((page - 1) * per_page)) ?ms)))
        = min per_page (max 0 (?n - (page - 1) * per_page))"
    by (simp add: k_def)
  have lenle: "int (length (take (nat per_page) (drop (nat ((page - 1) * per_page)) ?ms)))
        \<le> per_page"
    using pos by simp
  have c2: "pt_total ?r = ?n" by simp
  have c3: "pt_pages ?r = \<lceil>real_of_int (pt_total ?r) / real_of_int per_page\<rceil>"
    by (simp add: math_ceil_div_def)
  have c4: "pt_pages ?r = (pt_total ?r + per_page - 1) div per_page"
    using math_ceil_div_int [OF pos, of ?n] by simp
  have c5: "pt_total ?r \<le> pt_pages ?r * per_page"
    using math_ceil_div_least(1) [OF pos, of ?n] by simp
  have c6: "(pt_pages ?r - 1) * per_page < pt_total ?r"
    using math_ceil_div_least(2) [OF pos, of ?n] by simp
  have c7: "pt_has_next ?r = (page < pt_pages ?r)" by simp
  have c8: "pt_has_prev ?r = (page > 1)" by simp
  have c9: "map ts_id (pt_tickets ?r)
         = map t_id (take (nat per_page) (drop (nat ((page - 1) * per_page)) ?ms))"
    by (simp only: PaginatedTickets.simps ts_id_summary)
  have c10: "int (length (pt_tickets ?r)) \<le> per_page"
    using lenle by simp
  have c11: "int (length (pt_tickets ?r))
         = min per_page (max 0 (pt_total ?r - (page - 1) * per_page))"
    using len by simp
  from r c2 c3 c4 c5 c6 c7 c8 c9 c10 c11 show ?thesis
    by (intro exI [of _ ?r] conjI)
qed


lemma example_matching:
  "matching_tickets (\<lambda>s t. True) None None None None (user_response_of user_b) example_db
     = [ticket_3, ticket_2, ticket_1]"
  by (simp add: matching_tickets_def tickets_query_def truthy_def user_response_of_def
        user_b_def example_db_def ticket_1_def ticket_2_def ticket_3_def)

theorem ticket_list_pagination_witness:
  "(1::int) \<le> 2 \<and> (2::int) \<le> 100
   \<and> \<not> isl (get_tickets (\<lambda>s t. True) 2 2 None None None None (user_response_of user_b)
               example_db)
   \<and> pt_total (projr (get_tickets (\<lambda>s t. True) 2 2 None None None None
               (user_response_of user_b) example_db)) = 3
   \<and> pt_pages (projr (get_tickets (\<lambda>s t. True) 2 2 None None None None
               (user_response_of user_b) example_db)) = 2
   \<and> \<not> pt_has_next (projr (get_tickets (\<lambda>s t. True) 2 2 None None None None
               (user_response_of user_b) example_db))
   \<and> pt_has_prev (projr (get_tickets (\<lambda>s t. True) 2 2 None None None None
               (user_response_of user_b) example_db))
   \<and> map ts_id (pt_tickets (projr (get_tickets (\<lambda>s t. True) 2 2 None None None None
               (user_response_of user_b) example_db))) = [''65b000000000000000000001'']"
  using ticket_list_pagination [of 2 2 "\<lambda>s t. True" None None None None
      "user_response_of user_b" example_db]
  by (auto simp: example_matching ticket_1_def)

lemma py_str_own: "is_valid i \<Longrightarrow> (py_str x = i) = (x = Some i)"
  by (cases x) (auto simp: py_str_def is_valid_def)

lemma check_customer:
  assumes "ur_role u = CUSTOMER" "is_valid (ur_id u)" "is_valid tid"
  shows "check_ticket_permissions db tid u =
     (case find (\<lambda>t. t_id t = ObjectId tid) (tickets db) of
        None \<Rightarrow> Inr False
      | Some t \<Rightarrow> Inr (t_created_by t = Some (ur_id u)))"
  using assms by (simp add: check_ticket_permissions_def py_str_own split: option.splits)

lemma check_staff:
  assumes "ur_role u = ADMIN \<or> ur_role u = AGENT" "is_valid tid"
  shows "check_ticket_permissions db tid u =
     (case find (\<lambda>t. t_id t = ObjectId tid) (tickets db) of
        None \<Rightarrow> Inr False
      | Some t \<Rightarrow> Inr True)"
  using assms by (auto simp: check_ticket_permissions_def split: option.splits)

lemma check_invalid: "\<not> is_valid tid \<Longrightarrow> check_ticket_permissions db tid u = Inl InvalidId"
  by (simp add: check_ticket_permissions_def)

lemma find_Some_iff_ex: "(\<exists>x. find P xs = Some x) = (\<exists>x \<in> set xs. P x)"
  by (induction xs) auto

lemma cabn_tickets:
  "tickets (fst (snd (create_and_broadcast_notification io new_id now user_id nt title msg data
                        ticket_id priority db m))) = tickets db"
  by (cases "is_valid user_id \<and> ticket_id_ok ticket_id")
     (simp_all add: cabn_valid_db cabn_invalid)

lemma status_change_tickets:
  "tickets (fst (notify_ticket_status_change io n1 n2 now tid old new by_id db m)) = tickets db"
  by (auto simp: notify_ticket_status_change_def Let_def cabn_tickets
        split: option.splits sum.splits)

lemma resolved_tickets:
  "tickets (fst (notify_ticket_resolved io n1 now tid by_id note db m)) = tickets db"
  by (auto simp: notify_ticket_resolved_def Let_def cabn_tickets split: option.splits)

lemma filter_update_one_first:
  "find P ds = Some x \<Longrightarrow> \<not> Q x \<Longrightarrow> \<not> Q (f x) \<Longrightarrow> filter Q (update_one P f ds) = filter Q ds"
  by (induction ds) (auto split: if_splits)

lemma apply_update_created_by: "t_created_by (apply_update now tu t) = t_created_by t"
  by (simp add: apply_update_def)


lemma status_effect_tickets:
  "tickets (fst (status_effect io n1 n2 now tid tu u old db1 m)) = tickets db1"
  by (cases "tu_status tu")
     (simp_all add: status_effect_def status_change_tickets resolved_tickets)

lemma matched_count_found: "find P ds = Some x \<Longrightarrow> matched_count P ds = 1"
  by (induction ds) (auto simp: matched_count_def split: if_splits)

lemma update_ticket_permitted:
  assumes "is_valid tid" "check_ticket_permissions db tid u = Inr True"
    and "find (\<lambda>t. t_id t = ObjectId tid) (tickets db) = Some orig"
    and "\<not> update_is_empty tu"
  shows "update_ticket io n1 n2 now tid tu u db m =
     (let db1 = db\<lparr>tickets := update_one (\<lambda>t. t_id t = ObjectId tid) (apply_update now tu)
                                  (tickets db)\<rparr>;
          st = status_effect io n1 n2 now tid tu u (t_status orig) db1 m
      in (get_ticket tid u (fst st), fst st, snd st))"
  using assms matched_count_found [OF assms(3)]
  by (simp add: update_ticket_def status_effect_def Let_def)

lemma update_ticket_noop:
  assumes "is_valid tid" "check_ticket_permissions db tid u = Inr True"
    and "find (\<lambda>t. t_id t = ObjectId tid) (tickets db) = Some orig"
    and "update_is_empty tu"
  shows "update_ticket io n1 n2 now tid tu u db m = (get_ticket tid u db, db, m)"
  using assms by (simp add: update_ticket_def)

lemma update_ticket_not_permitted:
  assumes "\<not> (is_valid tid \<and> check_ticket_permissions db tid u = Inr True
             \<and> (\<exists>orig. find (\<lambda>t. t_id t = ObjectId tid) (tickets db) = Some orig))"
  shows "snd (update_ticket io n1 n2 now tid tu u db m) = (db, m)
         \<and> isl (fst (update_ticket io n1 n2 now tid tu u db m))"
proof (cases "is_valid tid")
  case False
  then show ?thesis by (simp add: update_ticket_def)
next
  case True
  show ?thesis
  proof (cases "check_ticket_permissions db tid u")
    case (Inl e)
    then show ?thesis using True by (simp add: update_ticket_def)
  next
    case (Inr b)
    show ?thesis
    proof (cases b)
      case False
      then show ?thesis using True Inr by (simp add: update_ticket_def)
    next
      case tr: True
      then have "find (\<lambda>t. t_id t = ObjectId tid) (tickets db) = None"
        using assms True Inr by (cases "find (\<lambda>t. t_id t = ObjectId tid) (tickets db)") auto
      then show ?thesis using True Inr tr by (simp add: update_ticket_def)
    qed
  qed
qed

lemma update_ticket_tickets:
  "tickets (fst (snd (update_ticket io n1 n2 now tid tu u db m))) = tickets db
   \<or> (check_ticket_permissions db tid u = Inr True
       \<and> tickets (fst (snd (update_ticket io n1 n2 now tid tu u db m)))
           = update_one (\<lambda>t. t_id t = ObjectId tid) (apply_update now tu) (tickets db))"
proof (cases "is_valid tid \<and> check_ticket_permissions db tid u = Inr True
             \<and> (\<exists>orig. find (\<lambda>t. t_id t = ObjectId tid) (tickets db) = Some orig)")
  case False
  from update_ticket_not_permitted [OF False, of io n1 n2 now tu m]
  show ?thesis by simp
next
  case True
  then obtain orig where o: "find (\<lambda>t. t_id t = ObjectId tid) (tickets db) = Some orig"
    by blast
  show ?thesis
  proof (cases "update_is_empty tu")
    case e: True
    show ?thesis using update_ticket_noop [of tid db u orig tu io n1 n2 now m] True o e by simp
  next
    case e: False
    show ?thesis
      using update_ticket_permitted [of tid db u orig tu io n1 n2 now m] True o e
      by (simp add: Let_def status_effect_tickets)
  qed
qed

lemma update_ticket_ok_D:
  "fst (update_ticket io n1 n2 now tid tu u db m) = Inr r \<Longrightarrow>
   is_valid tid \<and> check_ticket_permissions db tid u = Inr True"
proof -
  assume a: "fst (update_ticket io n1 n2 now tid tu u db m) = Inr r"
  have "is_valid tid \<and> check_ticket_permissions db tid u = Inr True
             \<and> (\<exists>orig. find (\<lambda>t. t_id t = ObjectId tid) (tickets db) = Some orig)"
  proof (rule ccontr)
    assume n: "\<not> (is_valid tid \<and> check_ticket_permissions db tid u = Inr True
             \<and> (\<exists>orig. find (\<lambda>t. t_id t = ObjectId tid) (tickets db) = Some orig))"
    from update_ticket_not_permitted [OF n, of io n1 n2 now tu m] a show False by simp
  qed
  then show ?thesis by simp
qed

lemma update_ticket_denied:
  "is_valid tid \<Longrightarrow> check_ticket_permissions db tid u = Inr False \<Longrightarrow>
   update_ticket io n1 n2 now tid tu u db m
     = (Inl (HTTPException 403 ''Not authorized to update this ticket''), db, m)"
  by (simp add: update_ticket_def)

lemma get_ticket_denied:
  "is_valid tid \<Longrightarrow> check_ticket_permissions db tid u = Inr False \<Longrightarrow>
   get_ticket tid u db = Inl (HTTPException 403 ''Not authorized to access this ticket'')"
  by (simp add: get_ticket_def)

lemma get_ticket_ok_D:
  "get_ticket tid u db = Inr r \<Longrightarrow>
   is_valid tid \<and> check_ticket_permissions db tid u = Inr True \<and> tr_id r = ObjectId tid"
proof -
  assume g: "get_ticket tid u db = Inr r"
  have v: "is_valid tid" using g by (cases "is_valid tid") (simp_all add: get_ticket_def)
  obtain b where c: "check_ticket_permissions db tid u = Inr b"
    using g v by (cases "check_ticket_permissions db tid u") (simp_all add: get_ticket_def)
  have b: "b" using g v c by (cases b) (simp_all add: get_ticket_def)
  obtain t where t: "find (\<lambda>t. t_id t = ObjectId tid) (tickets db) = Some t"
    using g v c b
    by (cases "find (\<lambda>t. t_id t = ObjectId tid) (tickets db)") (simp_all add: get_ticket_def)
  have "r = ticket_response_of db t" using g v c b t by (simp add: get_ticket_def)
  moreover have "t_id t = ObjectId tid" using find_Some_D [OF t] by simp
  ultimately show ?thesis using v c b by (simp add: ticket_response_of_def)
qed

lemma check_true_customer_D:
  assumes "ur_role u = CUSTOMER" "is_valid (ur_id u)" "check_ticket_permissions db tid u = Inr True"
  shows "\<exists>t. find (\<lambda>t. t_id t = ObjectId tid) (tickets db) = Some t
             \<and> t_created_by t = Some (ur_id u)"
proof -
  have v: "is_valid tid" using assms(3) check_invalid [of tid db u] by auto
  show ?thesis
    using assms(3) check_customer [OF assms(1,2) v, of db] by (auto split: option.splits)
qed

lemma update_ticket_others_unchanged:
  assumes "ur_role u = CUSTOMER" "is_valid (ur_id u)"
  shows "filter (not_owned_by (ur_id u)) (tickets (fst (snd (update_ticket io n1 n2 now tid tu u db m))))
       = filter (not_owned_by (ur_id u)) (tickets db)"
proof -
  from update_ticket_tickets [of io n1 n2 now tid tu u db m]
  show ?thesis
  proof
    assume "tickets (fst (snd (update_ticket io n1 n2 now tid tu u db m))) = tickets db"
    then show ?thesis by simp
  next
    assume a: "check_ticket_permissions db tid u = Inr True
       \<and> tickets (fst (snd (update_ticket io n1 n2 now tid tu u db m)))
           = update_one (\<lambda>t. t_id t = ObjectId tid) (apply_update now tu) (tickets db)"
    then obtain t where t: "find (\<lambda>t. t_id t = ObjectId tid) (tickets db) = Some t"
      "t_created_by t = Some (ur_id u)"
      using check_true_customer_D [OF assms] by blast
    have "filter (not_owned_by (ur_id u))
            (update_one (\<lambda>t. t_id t = ObjectId tid) (apply_update now tu) (tickets db))
          = filter (not_owned_by (ur_id u)) (tickets db)"
      using t by (intro filter_update_one_first [where x = t])
                 (simp_all add: not_owned_by_def apply_update_created_by)
    with a show ?thesis by simp
  qed
qed

lemma get_tickets_customer:
  assumes "ur_role u = CUSTOMER" "canonical_oid (ur_id u)"
    and "get_tickets ts page per_page st pr cat se u db = Inr r"
  shows "\<forall>s \<in> set (pt_tickets r). \<exists>t \<in> set (tickets db).
            t_id t = ts_id s \<and> t_created_by t = Some (ur_id u)"
proof -
  let ?q = "tickets_query ts st pr cat se u"
  let ?docs = "take (nat per_page) (drop (nat ((page - 1) * per_page))
                     (sort_key (\<lambda>t. - int (t_created_at t)) (filter ?q (tickets db))))"
  have r: "pt_tickets r = map (ticket_summary_of db) ?docs"
    using assms(3) by (auto simp: get_tickets_def Let_def split: if_splits)
  have sub: "set ?docs \<subseteq> set (filter ?q (tickets db))"
    by (auto dest!: in_set_takeD in_set_dropD)
  have own: "t_created_by t = Some (ur_id u)" if "t \<in> set ?docs" for t
  proof -
    from that sub have "?q t" by auto
    then show ?thesis using assms(1,2) by (simp add: tickets_query_def canonical_oid_def)
  qed
  show ?thesis
  proof
    fix s assume "s \<in> set (pt_tickets r)"
    then obtain t where t: "t \<in> set ?docs" "s = ticket_summary_of db t"
      unfolding r by auto
    from t(1) sub have "t \<in> set (tickets db)" by auto
    moreover have "t_id t = ts_id s" using t(2) by (simp add: ticket_summary_of_def)
    ultimately show "\<exists>t \<in> set (tickets db). t_id t = ts_id s \<and> t_created_by t = Some (ur_id u)"
      using own [OF t(1)] by blast
  qed
qed

text \<open>
  C4. Ticket access is role-guarded. For a customer (whose identifier is canonical, as
  every authenticated user's is): the list of \<open>get_tickets\<close> holds only tickets whose
  \<open>created_by\<close> is the caller; \<open>check_ticket_permissions\<close> is true exactly when the ticket
  exists and its \<open>created_by\<close> is the caller, and when it is false \<open>get_ticket\<close> and
  \<open>update_ticket\<close> answer 403 and change nothing; a ticket read or updated successfully
  is the caller's own, and \<open>update_ticket\<close> never alters a ticket of somebody else. An
  admin or agent passes the check for every existing ticket.
\<close>

theorem ticket_access_role_guarded:
  "(ur_role u = CUSTOMER \<and> canonical_oid (ur_id u) \<longrightarrow>
      (\<forall>r. get_tickets ts page per_page st pr cat se u db = Inr r \<longrightarrow>
           (\<forall>s \<in> set (pt_tickets r). \<exists>t \<in> set (tickets db).
               t_id t = ts_id s \<and> t_created_by t = Some (ur_id u)))
    \<and> (is_valid tid \<longrightarrow>
          check_ticket_permissions db tid u =
            (case find (\<lambda>t. t_id t = ObjectId tid) (tickets db) of
               None \<Rightarrow> Inr False
             | Some t \<Rightarrow> Inr (t_created_by t = Some (ur_id u))))
    \<and> (is_valid tid \<and> check_ticket_permissions db tid u = Inr False \<longrightarrow>
          get_ticket tid u db = Inl (HTTPException 403 ''Not authorized to access this ticket'')
          \<and> update_ticket io n1 n2 now tid tu u db m
              = (Inl (HTTPException 403 ''Not authorized to update this ticket''), db, m))
    \<and> (\<forall>r. get_ticket tid u db = Inr r \<longrightarrow>
          tr_id r = ObjectId tid
          \<and> (\<exists>t. find (\<lambda>t. t_id t = ObjectId tid) (tickets db) = Some t
                  \<and> t_created_by t = Some (ur_id u)))
    \<and> (\<forall>r. fst (update_ticket io n1 n2 now tid tu u db m) = Inr r \<longrightarrow>
          (\<exists>t. find (\<lambda>t. t_id t = ObjectId tid) (tickets db) = Some t
                  \<and> t_created_by t = Some (ur_id u)))
    \<and> filter (not_owned_by (ur_id u))
          (tickets (fst (snd (update_ticket io n1 n2 now tid tu u db m))))
        = filter (not_owned_by (ur_id u)) (tickets db))
   \<and> ((ur_role u = ADMIN \<or> ur_role u = AGENT) \<and> is_valid tid
        \<and> (\<exists>t \<in> set (tickets db). t_id t = ObjectId tid)
       \<longrightarrow> check_ticket_permissions db tid u = Inr True)"
proof (intro conjI impI)
  assume a: "ur_role u = CUSTOMER \<and> canonical_oid (ur_id u)"
  then have c: "ur_role u = CUSTOMER" and co: "canonical_oid (ur_id u)" and v: "is_valid (ur_id u)"
    by (simp_all add: canonical_oid_def)
  show "\<forall>r. get_tickets ts page per_page st pr cat se u db = Inr r \<longrightarrow>
           (\<forall>s \<in> set (pt_tickets r). \<exists>t \<in> set (tickets db).
               t_id t = ts_id s \<and> t_created_by t = Some (ur_id u))"
    using get_tickets_customer [OF c co] by blast
  show "check_ticket_permissions db tid u =
            (case find (\<lambda>t. t_id t = ObjectId tid) (tickets db) of
               None \<Rightarrow> Inr False
             | Some t \<Rightarrow> Inr (t_created_by t = Some (ur_id u)))" if "is_valid tid"
    using check_customer [OF c v that] .
  show "get_ticket tid u db = Inl (HTTPException 403 ''Not authorized to access this ticket'')"
    if "is_valid tid \<and> check_ticket_permissions db tid u = Inr False"
    using that get_ticket_denied by blast
  show "update_ticket io n1 n2 now tid tu u db m
              = (Inl (HTTPException 403 ''Not authorized to update this ticket''), db, m)"
    if "is_valid tid \<and> check_ticket_permissions db tid u = Inr False"
    using that update_ticket_denied by blast
  show "\<forall>r. get_ticket tid u db = Inr r \<longrightarrow>
          tr_id r = ObjectId tid
          \<and> (\<exists>t. find (\<lambda>t. t_id t = ObjectId tid) (tickets db) = Some t
                  \<and> t_created_by t = Some (ur_id u))"
    using get_ticket_ok_D check_true_customer_D [OF c v] by blast
  show "\<forall>r. fst (update_ticket io n1 n2 now tid tu u db m) = Inr r \<longrightarrow>
          (\<exists>t. find (\<lambda>t. t_id t = ObjectId tid) (tickets db) = Some t
                  \<and> t_created_by t = Some (ur_id u))"
    using update_ticket_ok_D check_true_customer_D [OF c v] by blast
  show "filter (not_owned_by (ur_id u))
          (tickets (fst (snd (update_ticket io n1 n2 now tid tu u db m))))
        = filter (not_owned_by (ur_id u)) (tickets db)"
    using update_ticket_others_unchanged [OF c v] .
next
  assume s: "(ur_role u = ADMIN \<or> ur_role u = AGENT) \<and> is_valid tid
        \<and> (\<exists>t \<in> set (tickets db). t_id t = ObjectId tid)"
  then have "\<exists>x. find (\<lambda>t. t_id t = ObjectId tid) (tickets db) = Some x"
    by (simp only: find_Some_iff_ex)
  then show "check_ticket_permissions db tid u = Inr True"
    using s check_staff [of u tid db] by auto
qed

theorem ticket_access_role_guarded_witness:
  "ur_role (user_response_of user_a) = CUSTOMER
   \<and> canonical_oid (ur_id (user_response_of user_a))
   \<and> is_valid ''65b000000000000000000002''
   \<and> check_ticket_permissions example_db ''65b000000000000000000002''
        (user_response_of user_a) = Inr False
   \<and> get_ticket ''65b000000000000000000002'' (user_response_of user_a) example_db
        = Inl (HTTPException 403 ''Not authorized to access this ticket'')
   \<and> update_ticket io_ok ''65c000000000000000000001'' ''65c000000000000000000002'' 40
        ''65b000000000000000000002'' close_update (user_response_of user_a) example_db
        init_manager
        = (Inl (HTTPException 403 ''Not authorized to update this ticket''), example_db,
           init_manager)
   \<and> check_ticket_permissions example_db ''65b000000000000000000001''
        (user_response_of user_a) = Inr True
   \<and> ur_role (user_response_of user_b) = AGENT
   \<and> check_ticket_permissions example_db ''65b000000000000000000002''
        (user_response_of user_b) = Inr True"
proof -
  have v: "is_valid ''65b000000000000000000002''" "is_valid ''65b000000000000000000001''"
    by (simp_all add: is_valid_def is_hex_digit_def)
  have a: "ur_role (user_response_of user_a) = CUSTOMER"
    "canonical_oid (ur_id (user_response_of user_a))"
    by (simp_all add: user_response_of_def user_a_def canonical_oid_def is_valid_def
          is_hex_digit_def ObjectId_def lower_hex_def)
  have b: "ur_role (user_response_of user_b) = AGENT"
    by (simp add: user_response_of_def user_b_def)
  have f2: "find (\<lambda>t. t_id t = ObjectId ''65b000000000000000000002'') (tickets example_db)
      = Some ticket_2"
    by (simp add: example_db_def ticket_1_def ticket_2_def ObjectId_def lower_hex_def)
  have f1: "find (\<lambda>t. t_id t = ObjectId ''65b000000000000000000001'') (tickets example_db)
      = Some ticket_1"
    by (simp add: example_db_def ticket_1_def ObjectId_def lower_hex_def)
  have o: "t_created_by ticket_2 \<noteq> Some (ur_id (user_response_of user_a))"
    "t_created_by ticket_1 = Some (ur_id (user_response_of user_a))"
    by (simp_all add: ticket_1_def ticket_2_def user_response_of_def user_a_def)
  have e: "\<exists>t \<in> set (tickets example_db). t_id t = ObjectId ''65b000000000000000000002''"
    using find_Some_D [OF f2] by blast
  from ticket_access_role_guarded [of "user_response_of user_a" "\<lambda>s t. True" 1 20 None None
      None None example_db "''65b000000000000000000002''" io_ok
      "''65c000000000000000000001''" "''65c000000000000000000002''" 40 close_update init_manager]
    ticket_access_role_guarded [of "user_response_of user_a" "\<lambda>s t. True" 1 20 None None
      None None example_db "''65b000000000000000000001''" io_ok
      "''65c000000000000000000001''" "''65c000000000000000000002''" 40 close_update init_manager]
    ticket_access_role_guarded [of "user_response_of user_b" "\<lambda>s t. True" 1 20 None None
      None None example_db "''65b000000000000000000002''" io_ok
      "''65c000000000000000000001''" "''65c000000000000000000002''" 40 close_update init_manager]
    v a b f1 f2 o e
  show ?thesis by simp
qed

section \<open>Integrity across collections\<close>

lemma delete_ticket_frame:
  "messages (snd (delete_ticket tid u db)) = messages db
   \<and> notifications (snd (delete_ticket tid u db)) = notifications db
   \<and> users (snd (delete_ticket tid u db)) = users db"
  by (simp add: delete_ticket_def Let_def)

lemma valid_ids:
  "is_valid ''65b000000000000000000001''" "is_valid ''65a0000000000000000000a1''"
  "ObjectId ''65b000000000000000000001'' = ''65b000000000000000000001''"
  "ObjectId ''65a0000000000000000000a1'' = ''65a0000000000000000000a1''"
  by (simp_all add: is_valid_def is_hex_digit_def ObjectId_def lower_hex_def)

lemma after_update_parts:
  "users db_after_update = [user_a, user_b]"
  "map t_id (tickets db_after_update)
     = [''65b000000000000000000001'', ''65b000000000000000000002'', ''65b000000000000000000003'']"
  "map t_message_count (tickets db_after_update) = [0, 0, 0]"
  "map t_created_by (tickets db_after_update)
     = [Some ''65a0000000000000000000a1'', Some ''65a0000000000000000000c3'',
        Some ''65a0000000000000000000a1'']"
  "messages db_after_update = []"
  "map n_ticket_id (notifications db_after_update) = [Some ''65b000000000000000000001'']"
  "map n_user_id (notifications db_after_update) = [''65a0000000000000000000a1'']"
  by (simp_all add: db_after_update_def update_ticket_def check_ticket_permissions_def valid_ids
        example_db_def ticket_1_def ticket_2_def ticket_3_def user_a_def user_b_def
        user_response_of_def close_update_def update_is_empty_def Let_def py_str_def
        matched_count_def apply_update_def notify_ticket_status_change_def
        create_and_broadcast_notification_def notification_document_def
        notification_priorities_def is_user_connected_def init_manager_def get_ticket_def)


lemma start_consistent:
  "dangling_messages example_db = []" "dangling_notifications example_db = []"
  "count_drift example_db = []"
  by (simp_all add: dangling_messages_def dangling_notifications_def count_drift_def
        example_db_def ticket_1_def ticket_2_def ticket_3_def count_documents_def)

lemma tickets_after_update:
  "\<exists>a b c. tickets db_after_update = [a, b, c]
     \<and> t_id a = ''65b000000000000000000001'' \<and> t_id b = ''65b000000000000000000002''
     \<and> t_id c = ''65b000000000000000000003'' \<and> t_message_count a = 0
     \<and> t_message_count b = 0 \<and> t_message_count c = 0
     \<and> t_created_by a = Some ''65a0000000000000000000a1''"
proof -
  from after_update_parts(2) obtain a b c where l: "tickets db_after_update = [a, b, c]"
    by (auto simp: map_eq_Cons_conv)
  with after_update_parts(2,3,4) show ?thesis by auto
qed

lemma between_writes:
  "map t_id (count_drift db_between_writes) = [''65b000000000000000000001'']"
proof -
  from tickets_after_update obtain a b c where l: "tickets db_after_update = [a, b, c]"
    "t_id a = ''65b000000000000000000001''" "t_id b = ''65b000000000000000000002''"
    "t_id c = ''65b000000000000000000003''" "t_message_count a = 0"
    "t_message_count b = 0" "t_message_count c = 0"
    by blast
  show ?thesis
    using l after_update_parts(5)
    by (simp add: db_between_writes_def send_message_insert_def count_drift_def
          count_documents_def message_document_def hello_message_def)
qed

lemma after_message:
  "\<not> isl (fst (send_message ''65d000000000000000000001'' 50 hello_message
      (user_response_of user_a) db_after_update))"
  "map m_id (messages db_after_message) = [''65d000000000000000000001'']"
  "map m_ticket_id (messages db_after_message) = [''65b000000000000000000001'']"
  "map t_id (tickets db_after_message)
     = [''65b000000000000000000001'', ''65b000000000000000000002'', ''65b000000000000000000003'']"
  "map t_message_count (tickets db_after_message) = [1, 0, 0]"
  "notifications db_after_message = notifications db_after_update"
proof -
  from tickets_after_update obtain a b c where l: "tickets db_after_update = [a, b, c]"
    "t_id a = ''65b000000000000000000001''" "t_id b = ''65b000000000000000000002''"
    "t_id c = ''65b000000000000000000003''" "t_message_count a = 0"
    "t_message_count b = 0" "t_message_count c = 0"
    "t_created_by a = Some ''65a0000000000000000000a1''"
    by blast
  have chk: "check_ticket_permissions db_after_update (mc_ticket_id hello_message)
      (user_response_of user_a) = Inr True"
    using l by (simp add: check_ticket_permissions_def hello_message_def valid_ids
          user_response_of_def user_a_def py_str_def)
  have s: "send_message ''65d000000000000000000001'' 50 hello_message
      (user_response_of user_a) db_after_update
      = (Inr (message_response_of (sender_profile_of (user_response_of user_a))
               (message_document ''65d000000000000000000001'' 50 hello_message
                  (user_response_of user_a))),
         send_message_count 50 hello_message
           (send_message_insert ''65d000000000000000000001'' 50 hello_message
              (user_response_of user_a) db_after_update))"
    using chk after_update_parts(5)
    by (simp add: send_message_def Let_def send_message_insert_def send_message_count_def
          message_document_def)
  show "\<not> isl (fst (send_message ''65d000000000000000000001'' 50 hello_message
      (user_response_of user_a) db_after_update))"
    by (simp add: s)
  have dm: "db_after_message = send_message_count 50 hello_message
           (send_message_insert ''65d000000000000000000001'' 50 hello_message
              (user_response_of user_a) db_after_update)"
    by (simp add: db_after_message_def s)
  show "map m_id (messages db_after_message) = [''65d000000000000000000001'']"
    "map m_ticket_id (messages db_after_message) = [''65b000000000000000000001'']"
    "notifications db_after_message = notifications db_after_update"
    using after_update_parts(5)
    by (simp_all add: dm send_message_count_def send_message_insert_def
          message_document_def hello_message_def)
  show "map t_id (tickets db_after_message)
     = [''65b000000000000000000001'', ''65b000000000000000000002'', ''65b000000000000000000003'']"
    "map t_message_count (tickets db_after_message) = [1, 0, 0]"
    using l
    by (simp_all add: dm send_message_count_def send_message_insert_def
          hello_message_def valid_ids)
qed

lemma after_delete:
  "fst (delete_ticket ''65b000000000000000000001'' (user_response_of user_b) db_after_message)
     = Inr ()"
  "map t_id (tickets db_after_delete)
     = [''65b000000000000000000002'', ''65b000000000000000000003'']"
  "messages db_after_delete = messages db_after_message"
  "notifications db_after_delete = notifications db_after_update"
proof -
  from after_message(4) obtain a b c where l: "tickets db_after_message = [a, b, c]"
    by (auto simp: map_eq_Cons_conv)
  with after_message(4) have ids: "t_id a = ''65b000000000000000000001''"
    "t_id b = ''65b000000000000000000002''" "t_id c = ''65b000000000000000000003''"
    by auto
  show "fst (delete_ticket ''65b000000000000000000001'' (user_response_of user_b)
      db_after_message) = Inr ()"
    using l ids
    by (simp add: delete_ticket_def Let_def valid_ids matched_count_def user_response_of_def
          user_b_def)
  show "map t_id (tickets db_after_delete)
     = [''65b000000000000000000002'', ''65b000000000000000000003'']"
    using l ids
    by (simp add: db_after_delete_def delete_ticket_def Let_def valid_ids user_response_of_def
          user_b_def)
  show "messages db_after_delete = messages db_after_message"
    "notifications db_after_delete = notifications db_after_update"
    using after_message(6)
    by (simp_all add: db_after_delete_def delete_ticket_frame)
qed

lemma dangling_after_delete:
  "map m_id (dangling_messages db_after_delete) = [''65d000000000000000000001'']"
  "map n_ticket_id (dangling_notifications db_after_delete) = [Some ''65b000000000000000000001'']"
proof -
  from after_delete(2) obtain b c where l: "tickets db_after_delete = [b, c]"
    "t_id b = ''65b000000000000000000002''" "t_id c = ''65b000000000000000000003''"
    by (auto simp: map_eq_Cons_conv)
  from after_message(2,3) obtain x where mx: "messages db_after_message = [x]"
    "m_id x = ''65d000000000000000000001''" "m_ticket_id x = ''65b000000000000000000001''"
    by (auto simp: map_eq_Cons_conv)
  from after_update_parts(6) obtain n where nx: "notifications db_after_update = [n]"
    "n_ticket_id n = Some ''65b000000000000000000001''"
    by (auto simp: map_eq_Cons_conv)
  show "map m_id (dangling_messages db_after_delete) = [''65d000000000000000000001'']"
    using l mx after_delete(3) by (simp add: dangling_messages_def ticket_exists_def)
  show "map n_ticket_id (dangling_notifications db_after_delete)
      = [Some ''65b000000000000000000001'']"
    using l nx after_delete(4) by (simp add: dangling_notifications_def ticket_exists_def)
qed


lemma update_ok:
  "\<not> isl (fst (update_ticket io_ok ''65c000000000000000000001''
      ''65c000000000000000000002'' 40 ''65b000000000000000000001'' close_update
      (user_response_of user_a) example_db init_manager))"
  by (simp add: update_ticket_def check_ticket_permissions_def valid_ids
        example_db_def ticket_1_def ticket_2_def ticket_3_def user_a_def user_b_def
        user_response_of_def close_update_def update_is_empty_def Let_def py_str_def
        matched_count_def apply_update_def notify_ticket_status_change_def
        create_and_broadcast_notification_def notification_document_def
        notification_priorities_def is_user_connected_def init_manager_def get_ticket_def)

text \<open>
  C3. Relational integrity across collections is not maintained. \<open>delete_ticket\<close> removes
  only the ticket document: messages and notifications are left as they are. From a
  database with no dangling reference and no wrong count, the run of \<open>update_ticket\<close>,
  \<open>send_message\<close> and \<open>delete_ticket\<close>, each successful, ends with a message and a
  notification whose \<open>ticket_id\<close> names no existing ticket; and between the two separate
  writes of \<open>send_message\<close> the ticket's \<open>message_count\<close> differs from the number of its
  messages.
\<close>

theorem relational_integrity_not_maintained:
  "messages (snd (delete_ticket tid u db)) = messages db
   \<and> notifications (snd (delete_ticket tid u db)) = notifications db
   \<and> dangling_messages example_db = []
   \<and> dangling_notifications example_db = []
   \<and> count_drift example_db = []
   \<and> \<not> isl (fst (update_ticket io_ok ''65c000000000000000000001''
          ''65c000000000000000000002'' 40 ''65b000000000000000000001'' close_update
          (user_response_of user_a) example_db init_manager))
   \<and> \<not> isl (fst (send_message ''65d000000000000000000001'' 50 hello_message
          (user_response_of user_a) db_after_update))
   \<and> fst (delete_ticket ''65b000000000000000000001'' (user_response_of user_b)
          db_after_message) = Inr ()
   \<and> map m_id (dangling_messages db_after_delete) = [''65d000000000000000000001'']
   \<and> map n_ticket_id (dangling_notifications db_after_delete)
       = [Some ''65b000000000000000000001'']
   \<and> map t_id (count_drift db_between_writes) = [''65b000000000000000000001'']"
  using delete_ticket_frame [of tid u db] start_consistent update_ok after_message(1)
    after_delete(1) dangling_after_delete between_writes
  by simp

theorem relational_integrity_not_maintained_witness:
  "messages db_after_delete = messages db_after_message
   \<and> notifications db_after_delete = notifications db_after_message
   \<and> map m_id (dangling_messages db_after_delete) = [''65d000000000000000000001'']
   \<and> map t_id (count_drift db_between_writes) = [''65b000000000000000000001'']"
  using relational_integrity_not_maintained [of "''65b000000000000000000001''"
      "user_response_of user_b" db_after_message]
  by (simp add: db_after_delete_def)


end
